theory Spec2Isabelle
  imports Complex_Main "HOL-Library.Word"
begin

section \<open>Python values\<close>

text \<open>
  A \<^verbatim>\<open>str\<close> is the list of its code points, a \<^verbatim>\<open>bytes\<close> object a list of bytes;
  \<open>str_of\<close> gives the \<^verbatim>\<open>str\<close> of a literal.
\<close>

type_synonym str = "nat list"

type_synonym byte = "8 word"

definition str_of :: "string \<Rightarrow> str" where
  "str_of literal = map of_char literal"

definition ascii_bytes :: "string \<Rightarrow> byte list" where
  "ascii_bytes literal = map (\<lambda>c. of_nat (of_char c)) literal"

text \<open>\<^verbatim>\<open>str(n)\<close> for an integer: its decimal digits, with a minus sign when negative.\<close>

fun decimal :: "nat \<Rightarrow> str" where
  "decimal n = (if n < 10 then [48 + n] else decimal (n div 10) @ [48 + n mod 10])"

declare decimal.simps [simp del]

definition str_int :: "int \<Rightarrow> str" where
  "str_int i = (if i < 0 then 45 # decimal (nat (- i)) else decimal (nat i))"

section \<open>Python exceptions\<close>

text \<open>
  The exception classes that \<^verbatim>\<open>sz_search_flask.py\<close> names as keys of its table, the
  base class \<^verbatim>\<open>Exception\<close> that its handlers catch, the base class of the HTTP client's
  errors that \<^verbatim>\<open>sz_search_flask_perftest.py\<close> catches, and every other class, known by
  its name.
\<close>

datatype exc_class =
    SzBadInputError
  | SzUnknownDataSourceError
  | SzNotFoundError
  | SzReplaceConflictError
  | SzRetryTimeoutExceededError
  | SzConfigurationError
  | SzNotInitializedError
  | SzDatabaseError
  | SzDatabaseConnectionLostError
  | SzDatabaseTransientError
  | SzLicenseError
  | SzUnrecoverableError
  | SzUnhandledError
  | SzRetryableError
  | SzSdkError
  | SzError
  | ValueError
  | TypeError
  | JSONDecodeError
  | ConnectionError
  | ConnectionRefusedError
  | TimeoutError
  | PermissionError
  | FileNotFoundError
  | Exception
  | RequestException
  | OtherClass string

text \<open>
  A raised object: its exact class (\<^verbatim>\<open>type(err)\<close>), the proper ancestors of that class
  (the rest of its method resolution order; the class hierarchy of the SDK is not part of
  the repository, so every object carries its own), and the string \<^verbatim>\<open>str(err)\<close>.
\<close>

record py_exception =
  exc_type :: exc_class
  exc_bases :: "exc_class list"
  message :: str

definition isinstance :: "py_exception \<Rightarrow> exc_class \<Rightarrow> bool" where
  "isinstance err c = (c = exc_type err \<or> c \<in> set (exc_bases err))"

section \<open>The gateway: \<^verbatim>\<open>sz_search_flask.py\<close>\<close>

subsection \<open>Error code mapping table\<close>

text \<open>The dict literal, in its insertion order (a Python dict iterates in that order).\<close>

definition EXCEPTION_HTTP_CODES :: "(exc_class \<times> nat) list" where
  "EXCEPTION_HTTP_CODES =
    [(SzBadInputError, 400),
     (SzUnknownDataSourceError, 400),
     (SzNotFoundError, 404),
     (SzReplaceConflictError, 409),
     (SzRetryTimeoutExceededError, 408),
     (SzConfigurationError, 503),
     (SzNotInitializedError, 503),
     (SzDatabaseError, 503),
     (SzDatabaseConnectionLostError, 503),
     (SzDatabaseTransientError, 503),
     (SzLicenseError, 503),
     (SzUnrecoverableError, 500),
     (SzUnhandledError, 500),
     (SzRetryableError, 502),
     (SzSdkError, 502),
     (SzError, 422),
     (ValueError, 400),
     (TypeError, 400),
     (JSONDecodeError, 400),
     (ConnectionError, 503),
     (ConnectionRefusedError, 503),
     (TimeoutError, 504),
     (PermissionError, 403),
     (FileNotFoundError, 404)]"

text \<open>
  The fallback loop of \<^verbatim>\<open>exception_to_code\<close>:
  \<^verbatim>\<open>for mapped_exception, http_code in EXCEPTION_HTTP_CODES.items()\<close>, returning at the
  first \<^verbatim>\<open>isinstance\<close> hit; \<open>None\<close> when the loop falls through.
\<close>

fun scan_table :: "py_exception \<Rightarrow> (exc_class \<times> nat) list \<Rightarrow> nat option" where
  "scan_table err [] = None"
| "scan_table err ((mapped_exception, http_code) # rest) =
     (if isinstance err mapped_exception then Some http_code else scan_table err rest)"

definition exception_to_code :: "py_exception \<Rightarrow> nat" where
  "exception_to_code err =
     (let exception_type = exc_type err in
      case map_of EXCEPTION_HTTP_CODES exception_type of
        Some http_code \<Rightarrow> http_code
      | None \<Rightarrow>
          (case scan_table err EXCEPTION_HTTP_CODES of
             Some http_code \<Rightarrow> http_code
           | None \<Rightarrow> 500))"

text \<open>
  The classifier as the specification words it: the code of each failure category, and the
  fixed order in which the categories are tried when the exact class is not one of them.
\<close>

fun category_code :: "exc_class \<Rightarrow> nat option" where
  "category_code SzBadInputError = Some 400"
| "category_code SzUnknownDataSourceError = Some 400"
| "category_code SzNotFoundError = Some 404"
| "category_code SzReplaceConflictError = Some 409"
| "category_code SzRetryTimeoutExceededError = Some 408"
| "category_code SzConfigurationError = Some 503"
| "category_code SzNotInitializedError = Some 503"
| "category_code SzDatabaseError = Some 503"
| "category_code SzDatabaseConnectionLostError = Some 503"
| "category_code SzDatabaseTransientError = Some 503"
| "category_code SzLicenseError = Some 503"
| "category_code SzUnrecoverableError = Some 500"
| "category_code SzUnhandledError = Some 500"
| "category_code SzRetryableError = Some 502"
| "category_code SzSdkError = Some 502"
| "category_code SzError = Some 422"
| "category_code ValueError = Some 400"
| "category_code TypeError = Some 400"
| "category_code JSONDecodeError = Some 400"
| "category_code ConnectionError = Some 503"
| "category_code ConnectionRefusedError = Some 503"
| "category_code TimeoutError = Some 504"
| "category_code PermissionError = Some 403"
| "category_code FileNotFoundError = Some 404"
| "category_code Exception = None"
| "category_code RequestException = None"
| "category_code (OtherClass name) = None"

definition category_order :: "exc_class list" where
  "category_order =
    [SzBadInputError, SzUnknownDataSourceError, SzNotFoundError, SzReplaceConflictError,
     SzRetryTimeoutExceededError, SzConfigurationError, SzNotInitializedError, SzDatabaseError,
     SzDatabaseConnectionLostError, SzDatabaseTransientError, SzLicenseError,
     SzUnrecoverableError, SzUnhandledError, SzRetryableError, SzSdkError, SzError,
     ValueError, TypeError, JSONDecodeError, ConnectionError, ConnectionRefusedError,
     TimeoutError, PermissionError, FileNotFoundError]"

definition classify_spec :: "py_exception \<Rightarrow> nat" where
  "classify_spec e =
     (case category_code (exc_type e) of
        Some code \<Rightarrow> code
      | None \<Rightarrow>
          (case List.find (isinstance e) category_order of
             Some c \<Rightarrow> (case category_code c of Some code \<Rightarrow> code | None \<Rightarrow> 500)
           | None \<Rightarrow> 500))"

definition http_codes :: "nat set" where
  "http_codes = {400, 403, 404, 408, 409, 422, 500, 502, 503, 504}"

subsection \<open>Request, response and the collaborators\<close>

text \<open>
  \<^verbatim>\<open>bytes.decode()\<close>: strict UTF-8. A sequence is rejected when it has a stray or missing
  continuation byte, an overlong form, a surrogate or a code point above U+10FFFF;
  \<open>None\<close> stands for the \<^verbatim>\<open>UnicodeDecodeError\<close> that Python raises (its message, which
  names the offending byte and its position, is shortened here).
\<close>

definition continuation :: "byte \<Rightarrow> bool" where
  "continuation b = (0x80 \<le> b \<and> b \<le> 0xBF)"

definition low6 :: "byte \<Rightarrow> nat" where
  "low6 b = unat b - 0x80"

fun utf8_decode :: "byte list \<Rightarrow> str option" where
  "utf8_decode [] = Some []"
| "utf8_decode (b0 # bs) =
     (if b0 < 0x80 then map_option ((#) (unat b0)) (utf8_decode bs)
      else if 0xC2 \<le> b0 \<and> b0 \<le> 0xDF then
        (case bs of
           b1 # rest \<Rightarrow>
             (if continuation b1
              then map_option ((#) ((unat b0 - 0xC0) * 64 + low6 b1)) (utf8_decode rest)
              else None)
         | _ \<Rightarrow> None)
      else if 0xE0 \<le> b0 \<and> b0 \<le> 0xEF then
        (case bs of
           b1 # b2 # rest \<Rightarrow>
             (if (if b0 = 0xE0 then 0xA0 \<le> b1 \<and> b1 \<le> 0xBF
                  else if b0 = 0xED then 0x80 \<le> b1 \<and> b1 \<le> 0x9F
                  else continuation b1)
                 \<and> continuation b2
              then map_option ((#) ((unat b0 - 0xE0) * 4096 + low6 b1 * 64 + low6 b2))
                     (utf8_decode rest)
              else None)
         | _ \<Rightarrow> None)
      else if 0xF0 \<le> b0 \<and> b0 \<le> 0xF4 then
        (case bs of
           b1 # b2 # b3 # rest \<Rightarrow>
             (if (if b0 = 0xF0 then 0x90 \<le> b1 \<and> b1 \<le> 0xBF
                  else if b0 = 0xF4 then 0x80 \<le> b1 \<and> b1 \<le> 0x8F
                  else continuation b1)
                 \<and> continuation b2 \<and> continuation b3
              then map_option
                     ((#) ((unat b0 - 0xF0) * 262144 + low6 b1 * 4096 + low6 b2 * 64 + low6 b3))
                     (utf8_decode rest)
              else None)
         | _ \<Rightarrow> None)
      else None)"

definition unicode_decode_error :: py_exception where
  "unicode_decode_error =
     \<lparr>exc_type = OtherClass ''UnicodeDecodeError'',
      exc_bases = [OtherClass ''UnicodeError'', ValueError, Exception,
                   OtherClass ''BaseException'', OtherClass ''object''],
      message = str_of ''utf-8 codec cannot decode the byte sequence''\<rparr>"

definition decode :: "byte list \<Rightarrow> py_exception + str" where
  "decode raw = (case utf8_decode raw of None \<Rightarrow> Inl unicode_decode_error | Some s \<Rightarrow> Inr s)"

text \<open>
  A request: the bytes that were posted, what Werkzeug's form parser did with them, and
  \<^verbatim>\<open>request.args\<close>, the query parameters in the order of the query string;
  \<^verbatim>\<open>request.args.get(key)\<close> is the first value of the key or \<^verbatim>\<open>None\<close>.

  \<^verbatim>\<open>request.data\<close> is what is left in the input stream when it is first asked for. That
  is the whole body, unless the form parser has read the stream before, which it does for a
  request whose content type is \<^verbatim>\<open>application/x-www-form-urlencoded\<close> or
  \<^verbatim>\<open>multipart/form-data\<close>: \<open>FormRead unread\<close> says that it has, and holds the bytes that
  it left unread, none when it has read the form to its end.
\<close>

datatype form_parsing = NotForm | FormRead "byte list"

record request =
  req_body :: "byte list"
  req_form :: form_parsing
  req_args :: "(str \<times> str) list"

definition request_data :: "request \<Rightarrow> byte list" where
  "request_data req =
     (case req_form req of
        NotForm \<Rightarrow> req_body req
      | FormRead unread \<Rightarrow> unread)"

definition args_get :: "request \<Rightarrow> str \<Rightarrow> str option" where
  "args_get req key = map_of (req_args req) key"

text \<open>\<^verbatim>\<open>s.split(sep)\<close> for a one-character separator.\<close>

fun split_on :: "nat \<Rightarrow> str \<Rightarrow> str list" where
  "split_on sep [] = [[]]"
| "split_on sep (c # cs) =
     (case split_on sep cs of
        [] \<Rightarrow> (if c = sep then [[], []] else [[c]])
      | piece # pieces \<Rightarrow> (if c = sep then [] # piece # pieces else (c # piece) # pieces))"

text \<open>
  The SDK, which is not part of the repository: the flag constant
  \<^verbatim>\<open>SzEngineFlags.SZ_SEARCH_BY_ATTRIBUTES_DEFAULT_FLAGS\<close> and the engine's
  \<^verbatim>\<open>search_by_attributes(attributes, flags, search_profile)\<close>, which returns the result
  string or raises. The engine is an object with a state of its own, of type \<open>'st\<close>: a call
  is made in a state and leaves the state that the next call finds.
\<close>

record 'st senzing =
  SZ_SEARCH_BY_ATTRIBUTES_DEFAULT_FLAGS :: int
  search_by_attributes :: "'st \<Rightarrow> str \<Rightarrow> int \<Rightarrow> str \<Rightarrow> (py_exception + str) \<times> 'st"

text \<open>
  What Flask sends for the value a view returns. A \<^verbatim>\<open>str\<close> becomes a response with status
  200, the string as body and the framework's default mimetype \<^verbatim>\<open>text/html\<close>;
  \<^verbatim>\<open>jsonify(d)\<close> is a response with mimetype \<^verbatim>\<open>application/json\<close> whose body is the JSON
  object \<open>d\<close>; a pair \<^verbatim>\<open>(response, code)\<close> is that response with status \<open>code\<close>.
\<close>

datatype body = Text str | JsonObject "(string \<times> str) list"

record response =
  status :: nat
  mimetype :: string
  payload :: body

definition make_response_str :: "str \<Rightarrow> response" where
  "make_response_str rv = \<lparr>status = 200, mimetype = ''text/html'', payload = Text rv\<rparr>"

definition jsonify :: "(string \<times> str) list \<Rightarrow> response" where
  "jsonify d = \<lparr>status = 200, mimetype = ''application/json'', payload = JsonObject d\<rparr>"

definition with_status :: "response \<Rightarrow> nat \<Rightarrow> response" where
  "with_status rv code = rv\<lparr>status := code\<rparr>"

subsection \<open>\<^verbatim>\<open>process_search\<close>\<close>

text \<open>
  The result of running a search: what the call returned or raised, the state in which it
  left the engine, and the lines printed to the error stream.
\<close>

record 'st search_run =
  returned :: "py_exception + str"
  engine_after :: 'st
  stderr_lines :: "str list"

text \<open>\<^verbatim>\<open>profile or "SEARCH"\<close>: \<^verbatim>\<open>None\<close> and the empty string are false.\<close>

fun profile_or_default :: "str option \<Rightarrow> str" where
  "profile_or_default None = str_of ''SEARCH''"
| "profile_or_default (Some profile) = (if profile = [] then str_of ''SEARCH'' else profile)"

definition process_search ::
  "'st senzing \<Rightarrow> 'st \<Rightarrow> str \<Rightarrow> int \<Rightarrow> str option \<Rightarrow> 'st search_run" where
  "process_search engine st search_json engine_flags profile =
     (let (answer, st') =
            search_by_attributes engine st search_json engine_flags (profile_or_default profile)
      in case answer of
           Inr result \<Rightarrow> \<lparr>returned = Inr result, engine_after = st', stderr_lines = []\<rparr>
         | Inl err \<Rightarrow>
             (if isinstance err Exception
              then \<lparr>returned = Inl err, engine_after = st',
                    stderr_lines = [message err @ str_of '' ['' @ search_json @ str_of '']'']\<rparr>
              else \<lparr>returned = Inl err, engine_after = st', stderr_lines = []\<rparr>))"

subsection \<open>The endpoint \<^verbatim>\<open>do_search\<close>\<close>

text \<open>
  A request ends in a response, or in an exception that leaves the view function. The
  pool runs the submitted function and \<^verbatim>\<open>task.result()\<close> returns its value or raises what
  it raised, so \<^verbatim>\<open>executor.submit(process_search, ...)\<close> followed by \<^verbatim>\<open>task.result()\<close> is
  the call itself; how many such calls run at once is not modelled. Handling a request
  starts in a state \<open>st\<close> of the engine and leaves the engine in \<open>engine_state\<close>.
\<close>

datatype outcome = Responded response | Propagated py_exception

record 'st handled =
  outcome :: outcome
  engine_state :: 'st
  stderr_output :: "str list"

definition do_search :: "'st senzing \<Rightarrow> 'st \<Rightarrow> request \<Rightarrow> 'st handled" where
  "do_search sz_engine st req =
     (case decode (request_data req) of
        Inl err \<Rightarrow> \<lparr>outcome = Propagated err, engine_state = st, stderr_output = []\<rparr>
      | Inr user_request \<Rightarrow>
          (let flags0 = SZ_SEARCH_BY_ATTRIBUTES_DEFAULT_FLAGS sz_engine;
               flags =
                 (case args_get req (str_of ''flags'') of
                    None \<Rightarrow> flags0
                  | Some given \<Rightarrow>
                      (if given = [] then flags0
                       else (let user_flags = split_on (of_char (CHR ''|'')) given
                             in SZ_SEARCH_BY_ATTRIBUTES_DEFAULT_FLAGS sz_engine)));
               task = process_search sz_engine st user_request flags
                        (args_get req (str_of ''profile''))
           in case returned task of
                Inr result \<Rightarrow>
                  \<lparr>outcome = Responded (make_response_str result),
                   engine_state = engine_after task, stderr_output = stderr_lines task\<rparr>
              | Inl err \<Rightarrow>
                  (if isinstance err Exception
                   then \<lparr>outcome = Responded (with_status (jsonify [(''error'', message err)])
                                                   (exception_to_code err)),
                         engine_state = engine_after task, stderr_output = stderr_lines task\<rparr>
                   else \<lparr>outcome = Propagated err,
                         engine_state = engine_after task, stderr_output = stderr_lines task\<rparr>)))"

text \<open>
  An engine instrumented to keep, in its state, the list of the calls made on it, as triples
  (attributes, flags, search profile), in front of the state of the engine it wraps. It
  answers as the wrapped engine does.
\<close>

type_synonym engine_call = "str \<times> int \<times> str"

definition instrumented :: "'st senzing \<Rightarrow> (engine_call list \<times> 'st) senzing" where
  "instrumented engine =
     \<lparr>SZ_SEARCH_BY_ATTRIBUTES_DEFAULT_FLAGS = SZ_SEARCH_BY_ATTRIBUTES_DEFAULT_FLAGS engine,
      search_by_attributes =
        (\<lambda>(calls, st) attributes flags search_profile.
           (let (answer, st') = search_by_attributes engine st attributes flags search_profile
            in (answer, (calls @ [(attributes, flags, search_profile)], st'))))\<rparr>"

subsection \<open>Module initialisation and the \<^verbatim>\<open>__main__\<close> block\<close>

text \<open>
  What the module-level code reads and calls outside the repository: the environment, the
  built-ins \<^verbatim>\<open>int\<close> and \<^verbatim>\<open>str.lower\<close>, the SDK's
  \<^verbatim>\<open>SzAbstractFactoryCore(instance_name, settings).create_engine()\<close> as one function of
  the settings, the default size of a \<^verbatim>\<open>ThreadPoolExecutor\<close> and Flask's \<^verbatim>\<open>app.run\<close>,
  which serves (\<open>None\<close>) or raises. The model starts at the \<^verbatim>\<open>try\<close> of the
  initialisation block, after the imports at the top of the module have succeeded.
\<close>

record 'e platform =
  getenv :: "string \<Rightarrow> str option"
  py_int :: "str \<Rightarrow> py_exception + int"
  py_lower :: "str \<Rightarrow> str"
  create_engine :: "str \<Rightarrow> py_exception + 'e"
  default_workers :: nat
  app_run :: "str \<Rightarrow> int \<Rightarrow> bool \<Rightarrow> py_exception option"

text \<open>
  How the process goes on after a piece of module-level code: it \<open>Initialized\<close> the
  globals \<^verbatim>\<open>sz_engine\<close> and \<^verbatim>\<open>executor\<close> (the pool, known by its number of workers), it
  is \<open>Serving\<close> on a host and port, it left through \<^verbatim>\<open>SystemExit\<close> with a code, or it
  \<open>Crashed\<close> with an exception nothing caught.
\<close>

datatype 'e process_end =
    Initialized 'e nat
  | Serving 'e nat str int bool
  | SystemExit int
  | Crashed py_exception

record 'e startup =
  printed_err :: "str list"
  logged :: "str list"
  ending :: "'e process_end"

definition CONFIG_DIAGNOSTIC :: str where
  "CONFIG_DIAGNOSTIC =
     str_of ''The environment variable SENZING_ENGINE_CONFIGURATION_JSON ''
     @ str_of ''must be set with a proper JSON configuration.'' @ [10]
     @ str_of ''Please see https://senzing.zendesk.com/hc/en-us/articles/''
     @ str_of ''360038774134-G2Module-Configuration-and-the-Senzing-API''"

text \<open>
  The handler \<^verbatim>\<open>except Exception as err: print(err, file=sys.stderr); exit(-1)\<close> of the
  initialisation block. \<^verbatim>\<open>exit(-1)\<close> raises \<^verbatim>\<open>SystemExit\<close>, which is not an
  \<^verbatim>\<open>Exception\<close>, so the \<^verbatim>\<open>exit(-1)\<close> inside the \<^verbatim>\<open>try\<close> passes this handler.
\<close>

definition init_failed :: "py_exception \<Rightarrow> 'e startup" where
  "init_failed err =
     (if isinstance err Exception
      then \<lparr>printed_err = [message err], logged = [], ending = SystemExit (- 1)\<rparr>
      else \<lparr>printed_err = [], logged = [], ending = Crashed err\<rparr>)"

definition pool_size_error :: py_exception where
  "pool_size_error =
     \<lparr>exc_type = ValueError,
      exc_bases = [Exception, OtherClass ''BaseException'', OtherClass ''object''],
      message = str_of ''max_workers must be greater than 0''\<rparr>"

definition module_init :: "'e platform \<Rightarrow> 'e startup" where
  "module_init os =
     (let engine_config = getenv os ''SENZING_ENGINE_CONFIGURATION_JSON'' in
      if engine_config = None \<or> engine_config = Some []
      then \<lparr>printed_err = [CONFIG_DIAGNOSTIC], logged = [], ending = SystemExit (- 1)\<rparr>
      else
        (case create_engine os (case engine_config of Some settings \<Rightarrow> settings | None \<Rightarrow> []) of
           Inl err \<Rightarrow> init_failed err
         | Inr sz_engine \<Rightarrow>
             (case (case getenv os ''SENZING_THREADS_PER_PROCESS'' of
                      None \<Rightarrow> Inr 0
                    | Some given \<Rightarrow> py_int os given) of
                Inl err \<Rightarrow> init_failed err
              | Inr max_workers \<Rightarrow>
                  (if max_workers = 0
                   then \<lparr>printed_err = [],
                         logged = [str_of ''Senzing Engine and executor initialized successfully''],
                         ending = Initialized sz_engine (default_workers os)\<rparr>
                   else if max_workers < 0 then init_failed pool_size_error
                   else \<lparr>printed_err = [],
                         logged = [str_of ''Senzing Engine and executor initialized successfully''],
                         ending = Initialized sz_engine (nat max_workers)\<rparr>))))"

text \<open>
  The \<^verbatim>\<open>__main__\<close> block, reached only when the initialisation block ended normally:
  it reads port, host and debug flag and calls \<^verbatim>\<open>app.run\<close>; an \<^verbatim>\<open>Exception\<close> is logged and
  ends the process with \<^verbatim>\<open>sys.exit(1)\<close>.
\<close>

definition main_failed :: "'e startup \<Rightarrow> py_exception \<Rightarrow> 'e startup" where
  "main_failed st e =
     (if isinstance e Exception
      then st\<lparr>logged := logged st @ [str_of ''Failed to start application: '' @ message e],
              ending := SystemExit 1\<rparr>
      else st\<lparr>ending := Crashed e\<rparr>)"

definition main_block :: "'e platform \<Rightarrow> 'e startup \<Rightarrow> 'e startup" where
  "main_block os st =
     (case ending st of
        Initialized sz_engine workers \<Rightarrow>
          (case (case getenv os ''PORT'' of None \<Rightarrow> Inr 5000 | Some given \<Rightarrow> py_int os given) of
             Inl e \<Rightarrow> main_failed st e
           | Inr port \<Rightarrow>
               (let host = (case getenv os ''HOST'' of None \<Rightarrow> str_of ''0.0.0.0'' | Some h \<Rightarrow> h);
                    debug = (py_lower os (case getenv os ''FLASK_DEBUG'' of
                                            None \<Rightarrow> str_of ''False''
                                          | Some d \<Rightarrow> d) = str_of ''true'');
                    st' = st\<lparr>logged := logged st
                               @ [str_of ''Starting Flask app on '' @ host @ str_of '':''
                                  @ str_int port]\<rparr>
                in case app_run os host port debug of
                     None \<Rightarrow> st'\<lparr>ending := Serving sz_engine workers host port debug\<rparr>
                   | Some e \<Rightarrow> main_failed st' e))
      | _ \<Rightarrow> st)"

definition run_script :: "'e platform \<Rightarrow> 'e startup" where
  "run_script os = main_block os (module_init os)"

text \<open>A listener is bound only in a process that is serving.\<close>

fun listener_bound :: "'e process_end \<Rightarrow> bool" where
  "listener_bound (Serving sz_engine workers host port debug) = True"
| "listener_bound other = False"

text \<open>The exit status the operating system sees for a \<^verbatim>\<open>SystemExit\<close> code.\<close>

definition exit_status :: "int \<Rightarrow> nat" where
  "exit_status code = nat (code mod 256)"

section \<open>The load generator: \<^verbatim>\<open>sz_search_flask_perftest.py\<close>\<close>

subsection \<open>Collaborators\<close>

text \<open>
  A parsed JSON value is a \<^verbatim>\<open>dict\<close> or something else (\<^verbatim>\<open>send_request\<close> tests
  \<^verbatim>\<open>isinstance(data, dict)\<close>). A JSON module, \<^verbatim>\<open>orjson\<close> or \<^verbatim>\<open>json\<close>, parses a line or
  raises, and serialises a \<^verbatim>\<open>dict\<close> or raises (\<^verbatim>\<open>orjson.dumps\<close> does for a value nested
  deeper than it accepts).
\<close>

datatype ('d, 'o) data = Dict 'd | NotDict 'o

record ('d, 'o) json_module =
  loads :: "str \<Rightarrow> py_exception + ('d, 'o) data"
  dumps :: "'d \<Rightarrow> py_exception + str"

text \<open>
  The response object of \<^verbatim>\<open>requests\<close>, with \<^verbatim>\<open>response.url\<close>, the URL that was finally
  fetched (normalised, and after redirects, so it need not be the URL the request was made
  to), and \<^verbatim>\<open>response.raise_for_status()\<close>, which raises \<^verbatim>\<open>HTTPError\<close> (a
  \<^verbatim>\<open>RequestException\<close>) for the error status codes 4xx and 5xx and returns for every other
  code. The message of the error names the status, the reason and \<^verbatim>\<open>response.url\<close>.
\<close>

record http_response =
  status_code :: nat
  reason :: str
  response_url :: str
  content :: "byte list"

definition http_error :: "str \<Rightarrow> py_exception" where
  "http_error msg =
     \<lparr>exc_type = OtherClass ''HTTPError'',
      exc_bases = [RequestException, OtherClass ''OSError'', Exception,
                   OtherClass ''BaseException'', OtherClass ''object''],
      message = msg\<rparr>"

definition raise_for_status :: "http_response \<Rightarrow> py_exception option" where
  "raise_for_status response =
     (if 400 \<le> status_code response \<and> status_code response < 500
      then Some (http_error (decimal (status_code response) @ str_of '' Client Error: ''
                             @ reason response @ str_of '' for url: '' @ response_url response))
      else if 500 \<le> status_code response \<and> status_code response < 600
      then Some (http_error (decimal (status_code response) @ str_of '' Server Error: ''
                             @ reason response @ str_of '' for url: '' @ response_url response))
      else None)"

text \<open>
  The dictionary that \<^verbatim>\<open>send_request\<close> returns: \<^verbatim>\<open>success\<close> true with \<^verbatim>\<open>request_time\<close>,
  \<^verbatim>\<open>status_code\<close> and \<^verbatim>\<open>response_size\<close>, or \<^verbatim>\<open>success\<close> false with \<^verbatim>\<open>request_time\<close>
  and \<^verbatim>\<open>error\<close>.
\<close>

datatype 't perf_result =
    Success 't nat nat
  | Failure 't str

text \<open>
  What the load generator runs on. The world outside the program, the network and the
  clock, has a state of type \<open>'w\<close>; a call that acts on the world is made in a state and
  leaves the state that the next call finds. \<^verbatim>\<open>requests.post(url, data=..., headers=...,
  timeout=...)\<close> returns a response or raises, the body being the serialised text or the
  value itself (the headers are the same in every call); \<^verbatim>\<open>time.time()\<close> reads the clock.
  The rest does not depend on the state of the world: the optional \<^verbatim>\<open>orjson\<close> module and
  \<^verbatim>\<open>json\<close>; \<^verbatim>\<open>open(path)\<close>, which raises or gives the lines that iterating over the file
  yields, with the exception that ends the iteration early when reading fails part-way; the
  order in which \<^verbatim>\<open>as_completed\<close> yields the futures; \<^verbatim>\<open>mean\<close> and \<^verbatim>\<open>stdev\<close> of the
  \<^verbatim>\<open>statistics\<close> module.
\<close>

record ('d, 'o, 't, 'w) runtime =
  orjson :: "('d, 'o) json_module option"
  json :: "('d, 'o) json_module"
  post :: "'w \<Rightarrow> str \<Rightarrow> str + 'o \<Rightarrow> int \<Rightarrow> (py_exception + http_response) \<times> 'w"
  time_time :: "'w \<Rightarrow> 't \<times> 'w"
  open_file :: "str \<Rightarrow> py_exception + str list \<times> py_exception option"
  as_completed :: "(py_exception + 't perf_result) list \<Rightarrow> (py_exception + 't perf_result) list"
  mean :: "'t list \<Rightarrow> 't"
  stdev :: "'t list \<Rightarrow> 't"

subsection \<open>\<^verbatim>\<open>PerformanceTest.send_request\<close>\<close>

text \<open>
  The attributes of the object. \<^verbatim>\<open>max_workers\<close> is the number given to the constructor
  or, when none or zero was given, the integer in the environment variable
  \<^verbatim>\<open>SENZING_THREADS_PER_PROCESS\<close> (10 when it is unset); it may be zero or negative.
\<close>

record 't performance_test =
  url :: str
  max_workers :: int
  timeout :: int
  request_times :: "'t list"
  error_count :: nat
  total_requests :: nat
  start_time :: "'t option"

text \<open>
  The handler \<^verbatim>\<open>except requests.exceptions.RequestException as e\<close>: it reads the clock
  again and returns the failure dictionary; any other exception leaves \<^verbatim>\<open>send_request\<close>.
\<close>

definition request_failed ::
  "('d, 'o, 't::minus, 'w) runtime \<Rightarrow> 't \<Rightarrow> 'w \<Rightarrow> py_exception
    \<Rightarrow> (py_exception + 't perf_result) \<times> 'w" where
  "request_failed rt t_start w e =
     (if isinstance e RequestException
      then (let (t_end, w') = time_time rt w
            in (Inr (Failure (t_end - t_start) (message e)), w'))
      else (Inl e, w))"

text \<open>
  \<^verbatim>\<open>send_request\<close>, called in the world \<open>w\<close>: it reads the clock, serialises the record,
  posts it, and reads the clock again when \<^verbatim>\<open>requests.post\<close> has returned; when the
  serialisation, \<^verbatim>\<open>requests.post\<close> or \<^verbatim>\<open>raise_for_status\<close> raised, the handler takes
  over. Serialising does not act on the world, so the request is posted in the world that
  the first reading of the clock leaves. \<open>dumps\<close> of \<^verbatim>\<open>orjson\<close> stands for
  \<^verbatim>\<open>orjson.dumps(data).decode('utf-8')\<close>.
\<close>

definition send_request ::
  "('d, 'o, 't::minus, 'w) runtime \<Rightarrow> 't performance_test \<Rightarrow> 'w \<Rightarrow> ('d, 'o) data
    \<Rightarrow> (py_exception + 't perf_result) \<times> 'w" where
  "send_request rt self w data =
     (let (t_start, w1) = time_time rt w;
          serialisation =
            (case data of
               Dict d \<Rightarrow>
                 (case orjson rt of
                    Some fast \<Rightarrow> map_sum id Inl (dumps fast d)
                  | None \<Rightarrow> map_sum id Inl (dumps (json rt) d))
             | NotDict other \<Rightarrow> Inr (Inr other))
      in case serialisation of
           Inl e \<Rightarrow> request_failed rt t_start w1 e
         | Inr json_data \<Rightarrow>
             (let (answer, w2) = post rt w1 (url self) json_data (timeout self)
              in case answer of
                   Inl e \<Rightarrow> request_failed rt t_start w2 e
                 | Inr response \<Rightarrow>
                     (let (t_end, w3) = time_time rt w2;
                          request_time = t_end - t_start
                      in case raise_for_status response of
                           Some e \<Rightarrow> request_failed rt t_start w3 e
                         | None \<Rightarrow>
                             (Inr (Success request_time (status_code response)
                                     (length (content response))), w3))))"

subsection \<open>\<^verbatim>\<open>PerformanceTest.process_file\<close>: reading the input\<close>

text \<open>
  \<^verbatim>\<open>str.strip()\<close> removes leading and trailing white space, the code points for which
  \<^verbatim>\<open>str.isspace\<close> holds.
\<close>

definition isspace :: "nat \<Rightarrow> bool" where
  "isspace c =
     (c \<in> {9, 10, 11, 12, 13, 28, 29, 30, 31, 32, 133, 160, 5760, 8232, 8233, 8239, 8287, 12288}
      \<or> (8192 \<le> c \<and> c \<le> 8202))"

definition strip :: "str \<Rightarrow> str" where
  "strip s = rev (dropWhile isspace (rev (dropWhile isspace s)))"

text \<open>What the run prints: one constructor for each message.\<close>

datatype log_line =
    Started int str int int
  | InvalidJson nat str
  | RequestFailed str
  | ProcessingException str
  | Progress nat nat
  | FileNotFound str
  | UnexpectedError str

text \<open>
  The loop \<^verbatim>\<open>for line_num, line in enumerate(file, 1)\<close>. A blank line is skipped; a line
  that parses is submitted to the pool; a line for which the parser raises
  \<^verbatim>\<open>json.JSONDecodeError\<close> is reported and skipped; any other exception ends the loop.
\<close>

record ('d, 'o) reading =
  submitted :: "('d, 'o) data list"
  printed :: "log_line list"
  raised :: "py_exception option"

fun read_lines ::
  "(str \<Rightarrow> py_exception + ('d, 'o) data) \<Rightarrow> nat \<Rightarrow> str list \<Rightarrow> ('d, 'o) data list
    \<Rightarrow> log_line list \<Rightarrow> ('d, 'o) reading" where
  "read_lines parse line_num [] futures out =
     \<lparr>submitted = futures, printed = out, raised = None\<rparr>"
| "read_lines parse line_num (raw # rest) futures out =
     (let line = strip raw in
      if line = [] then read_lines parse (Suc line_num) rest futures out
      else
        (case parse line of
           Inr record \<Rightarrow> read_lines parse (Suc line_num) rest (futures @ [record]) out
         | Inl e \<Rightarrow>
             (if isinstance e JSONDecodeError
              then read_lines parse (Suc line_num) rest futures
                     (out @ [InvalidJson line_num (message e)])
              else \<lparr>submitted = futures, printed = out, raised = Some e\<rparr>)))"

text \<open>\<^verbatim>\<open>orjson.loads\<close> when \<^verbatim>\<open>orjson\<close> was imported, \<^verbatim>\<open>json.loads\<close> otherwise.\<close>

definition parse_line ::
  "('d, 'o, 't, 'w) runtime \<Rightarrow> str \<Rightarrow> py_exception + ('d, 'o) data" where
  "parse_line rt line =
     (case orjson rt of
        Some fast \<Rightarrow> loads fast line
      | None \<Rightarrow> loads (json rt) line)"

subsection \<open>\<^verbatim>\<open>PerformanceTest.process_file\<close>: collecting the results\<close>

definition zero_modulo_error :: py_exception where
  "zero_modulo_error =
     \<lparr>exc_type = OtherClass ''ZeroDivisionError'',
      exc_bases = [OtherClass ''ArithmeticError'', Exception,
                   OtherClass ''BaseException'', OtherClass ''object''],
      message = str_of ''integer modulo by zero''\<rparr>"

text \<open>
  The pool. \<^verbatim>\<open>executor.submit(self.send_request, record)\<close> gives a future for each record,
  and leaving the \<^verbatim>\<open>with\<close> block waits for all of them, also when an exception ends the
  block. The model runs the submitted calls one after the other, in the order of
  submission, each in the world that the one before it left: this is the schedule of a pool
  with one worker, and how the calls of several workers overlap is not modelled.
\<close>

fun run_futures ::
  "('d, 'o, 't::minus, 'w) runtime \<Rightarrow> 't performance_test \<Rightarrow> 'w \<Rightarrow> ('d, 'o) data list
    \<Rightarrow> (py_exception + 't perf_result) list \<times> 'w" where
  "run_futures rt self w [] = ([], w)"
| "run_futures rt self w (record # rest) =
     (let (result, w1) = send_request rt self w record;
          (results, w2) = run_futures rt self w1 rest
      in (result # results, w2))"

text \<open>
  The loop over \<^verbatim>\<open>as_completed(futures)\<close>. \<^verbatim>\<open>future.result()\<close> returns the dictionary of
  \<^verbatim>\<open>send_request\<close> or raises what it raised; the \<^verbatim>\<open>except Exception\<close> of the loop body
  counts an error, also for the \<^verbatim>\<open>ZeroDivisionError\<close> of
  \<^verbatim>\<open>records_processed % report_interval\<close> when the interval is zero. A progress report
  reads the clock, for the rate and the elapsed time that it prints.
\<close>

record ('t, 'w) collecting =
  self_now :: "'t performance_test"
  records_processed :: nat
  lines_out :: "log_line list"
  world_now :: 'w

definition count_exception :: "('t, 'w) collecting \<Rightarrow> py_exception \<Rightarrow> ('t, 'w) collecting" where
  "count_exception c e =
     c\<lparr>self_now := (self_now c)\<lparr>error_count := error_count (self_now c) + 1\<rparr>,
       lines_out := lines_out c @ [ProcessingException (message e)]\<rparr>"

definition record_result ::
  "('d, 'o, 't, 'w) runtime \<Rightarrow> int \<Rightarrow> ('t, 'w) collecting \<Rightarrow> 't perf_result
    \<Rightarrow> ('t, 'w) collecting" where
  "record_result rt report_interval c result =
     (let self1 = (self_now c)\<lparr>total_requests := total_requests (self_now c) + 1\<rparr>;
          processed = records_processed c + 1;
          c1 = (case result of
                  Success request_time code response_size \<Rightarrow>
                    c\<lparr>self_now := self1\<lparr>request_times := request_times self1 @ [request_time]\<rparr>,
                      records_processed := processed\<rparr>
                | Failure request_time error \<Rightarrow>
                    c\<lparr>self_now := self1\<lparr>error_count := error_count self1 + 1\<rparr>,
                      records_processed := processed,
                      lines_out := lines_out c @ [RequestFailed error]\<rparr>)
      in if report_interval = 0 then count_exception c1 zero_modulo_error
         else if int processed mod report_interval = 0
         then (let (t_now, w') = time_time rt (world_now c1)
               in c1\<lparr>lines_out := lines_out c1 @ [Progress processed (error_count (self_now c1))],
                     world_now := w'\<rparr>)
         else c1)"

text \<open>
  The loop ends with all futures collected, or with an exception that is not an
  \<^verbatim>\<open>Exception\<close> and leaves the loop.
\<close>

fun collect ::
  "('d, 'o, 't, 'w) runtime \<Rightarrow> int \<Rightarrow> (py_exception + 't perf_result) list
    \<Rightarrow> ('t, 'w) collecting \<Rightarrow> py_exception option \<times> ('t, 'w) collecting" where
  "collect rt report_interval [] c = (None, c)"
| "collect rt report_interval (future # rest) c =
     (case future of
        Inr result \<Rightarrow> collect rt report_interval rest (record_result rt report_interval c result)
      | Inl e \<Rightarrow>
          (if isinstance e Exception then collect rt report_interval rest (count_exception c e)
           else (Some e, c)))"

subsection \<open>\<^verbatim>\<open>PerformanceTest.print_final_report\<close>\<close>

text \<open>
  \<^verbatim>\<open>int(n * 0.50)\<close> and its siblings, in the arithmetic of IEEE 754 doubles. The double
  nearest to 0.50, 0.90, 0.95 and 0.99 is \<open>m / 2^53\<close> for the 53-bit integer \<open>m\<close> below.
  \<open>round_to_double x\<close> rounds a natural number to 53 significant bits, ties to even:
  it is the conversion of the integer \<open>n\<close> to a double, and, scaled by \<open>2^53\<close>, the rounding
  of the exact product. \<^verbatim>\<open>int\<close> truncates, so the index is the quotient by \<open>2^53\<close>.
  (No value here leaves the range of the normal doubles for a list that fits in memory.)
\<close>

fun bit_length :: "nat \<Rightarrow> nat" where
  "bit_length n = (if n = 0 then 0 else Suc (bit_length (n div 2)))"

declare bit_length.simps [simp del]

definition round_to_double :: "nat \<Rightarrow> nat" where
  "round_to_double x =
     (let s = bit_length x - 53;
          q = x div 2 ^ s;
          r = x mod 2 ^ s
      in if 2 * r < 2 ^ s \<or> (2 * r = 2 ^ s \<and> even q) then q * 2 ^ s else (q + 1) * 2 ^ s)"

definition int_of_product :: "nat \<Rightarrow> nat \<Rightarrow> int" where
  "int_of_product n m = int (round_to_double (round_to_double n * m) div 2 ^ 53)"

definition double_0_50 :: nat where "double_0_50 = 4503599627370496"
definition double_0_90 :: nat where "double_0_90 = 8106479329266893"
definition double_0_95 :: nat where "double_0_95 = 8556839292003942"
definition double_0_99 :: nat where "double_0_99 = 8917127262193582"

text \<open>List indexing as Python does it: a negative index counts from the end.\<close>

definition index_error :: py_exception where
  "index_error =
     \<lparr>exc_type = OtherClass ''IndexError'',
      exc_bases = [OtherClass ''LookupError'', Exception,
                   OtherClass ''BaseException'', OtherClass ''object''],
      message = str_of ''list index out of range''\<rparr>"

definition py_index :: "'a list \<Rightarrow> int \<Rightarrow> py_exception + 'a" where
  "py_index xs i =
     (let n = int (length xs) in
      if 0 \<le> i \<and> i < n then Inr (xs ! nat i)
      else if - n \<le> i \<and> i < 0 then Inr (xs ! nat (n + i))
      else Inl index_error)"

text \<open>
  The block \<^verbatim>\<open>if self.request_times:\<close> of the report: the numbers before they are
  formatted. The standard deviation is there only for more than one sample.
\<close>

record 't timing =
  average :: 't
  minimum :: 't
  maximum :: 't
  deviation :: "'t option"
  p50 :: 't
  p90 :: 't
  p95 :: 't
  p99 :: 't

definition timing_statistics ::
  "('d, 'o, 't::linorder, 'w) runtime \<Rightarrow> 't list \<Rightarrow> py_exception + 't timing option" where
  "timing_statistics rt samples =
     (case samples of
        [] \<Rightarrow> Inr None
      | first # others \<Rightarrow>
          (let sorted_times = sort samples;
               n = length sorted_times;
               p50_idx = int_of_product n double_0_50;
               p90_idx = int_of_product n double_0_90;
               p95_idx = int_of_product n double_0_95;
               p99_idx = int_of_product n double_0_99
           in case py_index sorted_times p50_idx of
                Inl e \<Rightarrow> Inl e
              | Inr v50 \<Rightarrow>
             (case py_index sorted_times p90_idx of
                Inl e \<Rightarrow> Inl e
              | Inr v90 \<Rightarrow>
             (case py_index sorted_times p95_idx of
                Inl e \<Rightarrow> Inl e
              | Inr v95 \<Rightarrow>
             (case py_index sorted_times p99_idx of
                Inl e \<Rightarrow> Inl e
              | Inr v99 \<Rightarrow>
                  Inr (Some \<lparr>average = mean rt samples,
                             minimum = fold min others first,
                             maximum = fold max others first,
                             deviation = (if 1 < length samples then Some (stdev rt samples) else None),
                             p50 = v50, p90 = v90, p95 = v95, p99 = v99\<rparr>))))))"

text \<open>
  The report: the counts and the timing statistics. The lines that format the success rate,
  the total time and the overall rate are floating-point output and are left out, except
  that \<^verbatim>\<open>records_processed / total_time\<close> raises when the total time is zero, and that the
  subtraction needs \<^verbatim>\<open>start_time\<close> to be set. \<open>end_time\<close> is the reading of the clock
  with which the function starts.
\<close>

record 't report =
  rep_processed :: nat
  rep_total :: nat
  rep_successful :: nat
  rep_failed :: nat
  rep_timing :: "'t timing option"

definition zero_division_error :: py_exception where
  "zero_division_error =
     \<lparr>exc_type = OtherClass ''ZeroDivisionError'',
      exc_bases = [OtherClass ''ArithmeticError'', Exception,
                   OtherClass ''BaseException'', OtherClass ''object''],
      message = str_of ''float division by zero''\<rparr>"

definition no_start_time_error :: py_exception where
  "no_start_time_error =
     \<lparr>exc_type = TypeError,
      exc_bases = [Exception, OtherClass ''BaseException'', OtherClass ''object''],
      message = str_of ''unsupported operand type(s) for -: float and NoneType''\<rparr>"

definition print_final_report ::
  "('d, 'o, 't::{linorder,minus,zero}, 'w) runtime \<Rightarrow> 't performance_test \<Rightarrow> 't \<Rightarrow> nat
    \<Rightarrow> py_exception + 't report" where
  "print_final_report rt self end_time processed =
     (case start_time self of
        None \<Rightarrow> Inl no_start_time_error
      | Some started \<Rightarrow>
          (let total_time = end_time - started in
           if total_time = 0 then Inl zero_division_error
           else
             (case timing_statistics rt (request_times self) of
                Inl e \<Rightarrow> Inl e
              | Inr stats \<Rightarrow>
                  Inr \<lparr>rep_processed = processed,
                       rep_total = total_requests self,
                       rep_successful = length (request_times self),
                       rep_failed = error_count self,
                       rep_timing = stats\<rparr>)))"

subsection \<open>\<^verbatim>\<open>PerformanceTest.process_file\<close>\<close>

text \<open>
  The run: what \<^verbatim>\<open>process_file\<close> returns or raises, what it printed, the object's
  attributes at the end, the final report, and the world as the run leaves it.
\<close>

record ('t, 'w) run =
  returns :: "py_exception + bool"
  run_output :: "log_line list"
  self_end :: "'t performance_test"
  final_report :: "'t report option"
  world_after :: 'w

text \<open>
  The handlers \<^verbatim>\<open>except FileNotFoundError\<close> and \<^verbatim>\<open>except Exception as e\<close> around the
  whole run.
\<close>

definition run_failed ::
  "str \<Rightarrow> 't performance_test \<Rightarrow> 'w \<Rightarrow> log_line list \<Rightarrow> py_exception \<Rightarrow> ('t, 'w) run" where
  "run_failed file_path self w out e =
     (if isinstance e FileNotFoundError
      then \<lparr>returns = Inr False, run_output = out @ [FileNotFound file_path], self_end = self,
            final_report = None, world_after = w\<rparr>
      else if isinstance e Exception
      then \<lparr>returns = Inr False, run_output = out @ [UnexpectedError (message e)],
            self_end = self, final_report = None, world_after = w\<rparr>
      else \<lparr>returns = Inl e, run_output = out, self_end = self, final_report = None,
            world_after = w\<rparr>)"

text \<open>
  \<^verbatim>\<open>process_file\<close>, called in the world \<open>w0\<close>. The file is opened first; then
  \<^verbatim>\<open>ThreadPoolExecutor(max_workers=self.max_workers)\<close> raises \<^verbatim>\<open>ValueError\<close> when
  \<^verbatim>\<open>max_workers\<close> is not positive, inside the \<^verbatim>\<open>try\<close> and before a line is read. The
  \<^verbatim>\<open>with\<close> block of the pool ends when the lines are read and the results collected, or
  when an exception leaves it; in both cases the requests submitted so far have been made.
\<close>

definition process_file ::
  "('d, 'o, 't::{linorder,minus,zero}, 'w) runtime \<Rightarrow> 't performance_test \<Rightarrow> 'w \<Rightarrow> str \<Rightarrow> int
    \<Rightarrow> ('t, 'w) run" where
  "process_file rt self0 w0 file_path report_interval =
     (let banner = [Started (max_workers self0) (url self0) (timeout self0) report_interval];
          (started, w1) = time_time rt w0;
          self = self0\<lparr>start_time := Some started\<rparr>
      in case open_file rt file_path of
           Inl e \<Rightarrow> run_failed file_path self w1 banner e
         | Inr (file, read_error) \<Rightarrow>
             if max_workers self \<le> 0 then run_failed file_path self w1 banner pool_size_error
             else
               (let rd = read_lines (parse_line rt) 1 file [] banner;
                    (futures, w2) = run_futures rt self w1 (submitted rd)
                in case (case raised rd of Some e \<Rightarrow> Some e | None \<Rightarrow> read_error) of
                     Some e \<Rightarrow> run_failed file_path self w2 (printed rd) e
                   | None \<Rightarrow>
                       (let (failure, c) =
                              collect rt report_interval (as_completed rt futures)
                                \<lparr>self_now = self, records_processed = 0,
                                 lines_out = printed rd, world_now = w2\<rparr>
                        in case failure of
                             Some e \<Rightarrow>
                               run_failed file_path (self_now c) (world_now c) (lines_out c) e
                           | None \<Rightarrow>
                               (let (end_time, w3) = time_time rt (world_now c)
                                in case print_final_report rt (self_now c) end_time
                                          (records_processed c) of
                                     Inl e \<Rightarrow>
                                       \<lparr>returns = Inl e, run_output = lines_out c,
                                        self_end = self_now c, final_report = None,
                                        world_after = w3\<rparr>
                                   | Inr rep \<Rightarrow>
                                       \<lparr>returns = Inr True, run_output = lines_out c,
                                        self_end = self_now c, final_report = Some rep,
                                        world_after = w3\<rparr>))))"

text \<open>
  A runtime instrumented to keep, in the state of the world, the list of the requests that
  were posted, as triples (URL, body, timeout), in front of the state of the world of the
  runtime it wraps. Everything is answered as the wrapped runtime answers it.
\<close>

type_synonym 'o posted = "str \<times> (str + 'o) \<times> int"

definition recording ::
  "('d, 'o, 't, 'w) runtime \<Rightarrow> ('d, 'o, 't, 'o posted list \<times> 'w) runtime" where
  "recording rt =
     \<lparr>orjson = orjson rt,
      json = json rt,
      post =
        (\<lambda>(sent, w) target body limit.
           (let (answer, w') = post rt w target body limit
            in (answer, (sent @ [(target, body, limit)], w')))),
      time_time = (\<lambda>(sent, w). (let (t, w') = time_time rt w in (t, (sent, w')))),
      open_file = open_file rt,
      as_completed = as_completed rt,
      mean = mean rt,
      stdev = stdev rt\<rparr>"

subsection \<open>Notions used to state the properties\<close>


text \<open>
  The body that \<^verbatim>\<open>send_request\<close> hands to \<^verbatim>\<open>requests.post\<close> for a record: the text that
  the JSON module in use makes of a \<^verbatim>\<open>dict\<close>, when it makes one, and the value itself
  otherwise. The request that the instrumented runtime then lists.
\<close>

definition serialised ::
  "('d, 'o, 't, 'w) runtime \<Rightarrow> ('d, 'o) data \<Rightarrow> py_exception + (str + 'o)" where
  "serialised rt data =
     (case data of
        Dict d \<Rightarrow>
          (case dumps (case orjson rt of Some fast \<Rightarrow> fast | None \<Rightarrow> json rt) d of
             Inl e \<Rightarrow> Inl e
           | Inr json_text \<Rightarrow> Inr (Inl json_text))
      | NotDict other \<Rightarrow> Inr (Inr other))"

definition request_for ::
  "('d, 'o, 't, 'w) runtime \<Rightarrow> 't performance_test \<Rightarrow> ('d, 'o) data \<Rightarrow> 'o posted option" where
  "request_for rt self data =
     (case serialised rt data of
        Inl e \<Rightarrow> None
      | Inr body \<Rightarrow> Some (url self, body, timeout self))"

text \<open>
  What the specification says of one input line: a line that is not blank and parses is a
  record to submit; a line that is not blank and does not parse is reported with its number.
\<close>

definition well_formed :: "(str \<Rightarrow> py_exception + 'r) \<Rightarrow> str \<Rightarrow> 'r option" where
  "well_formed parse raw =
     (if strip raw = [] then None
      else (case parse (strip raw) of Inr parsed \<Rightarrow> Some parsed | Inl e \<Rightarrow> None))"

definition rejected :: "(str \<Rightarrow> py_exception + 'r) \<Rightarrow> nat \<times> str \<Rightarrow> log_line option" where
  "rejected parse numbered =
     (if strip (snd numbered) = [] then None
      else (case parse (strip (snd numbered)) of
              Inr parsed \<Rightarrow> None
            | Inl e \<Rightarrow> Some (InvalidJson (fst numbered) (message e))))"

fun is_invalid_json :: "log_line \<Rightarrow> bool" where
  "is_invalid_json (InvalidJson line_num msg) = True"
| "is_invalid_json other = False"

section \<open>Example data\<close>

text \<open>
  A backend that answers every search with an empty entity list and whose state is the
  number of searches it has served; a JSON request with both query parameters; a request
  whose body is the single byte \<open>0xFF\<close>; a form-encoded request, whose body the form
  parser has read to its end; a platform whose configuration variable is set to the empty
  string, and a platform with an empty environment.
\<close>

definition example_engine :: "nat senzing" where
  \<open>example_engine =
     \<lparr>SZ_SEARCH_BY_ATTRIBUTES_DEFAULT_FLAGS = 0,
      search_by_attributes =
        (\<lambda>served attributes flags profile. (Inr (str_of ''{"entities": []}''), Suc served))\<rparr>\<close>

definition example_request :: request where
  \<open>example_request =
     \<lparr>req_body = ascii_bytes ''{"NAME_FULL": "Jane Doe"}'',
      req_form = NotForm,
      req_args = [(str_of ''flags'', str_of ''TEST_FLAG|OTHER''), (str_of ''profile'', str_of ''CUSTOM'')]\<rparr>\<close>

definition undecodable_request :: request where
  "undecodable_request = \<lparr>req_body = [0xFF], req_form = NotForm, req_args = []\<rparr>"

definition form_request :: request where
  \<open>form_request =
     \<lparr>req_body = ascii_bytes ''NAME_FULL=Jane'', req_form = FormRead [], req_args = []\<rparr>\<close>

definition blank_config_platform :: "unit platform" where
  "blank_config_platform =
     \<lparr>getenv = (\<lambda>name. if name = ''SENZING_ENGINE_CONFIGURATION_JSON'' then Some []
                        else if name = ''PORT'' then Some (str_of ''8080'') else None),
      py_int = (\<lambda>s. Inr 8080),
      py_lower = (\<lambda>s. s),
      create_engine = (\<lambda>settings. Inr ()),
      default_workers = 8,
      app_run = (\<lambda>host port debug. None)\<rparr>"

definition bare_platform :: "unit platform" where
  "bare_platform =
     \<lparr>getenv = (\<lambda>name. None),
      py_int = (\<lambda>s. Inr 0),
      py_lower = (\<lambda>s. s),
      create_engine = (\<lambda>settings. Inr ()),
      default_workers = 8,
      app_run = (\<lambda>host port debug. None)\<rparr>"

text \<open>
  A load generator environment. \<^verbatim>\<open>orjson\<close> is missing and the stand-in for \<^verbatim>\<open>json.loads\<close>
  accepts the lines in braces, raises \<^verbatim>\<open>RecursionError\<close> for a line of a thousand or
  more opening brackets, as \<^verbatim>\<open>json.loads\<close> does when the nesting passes the recursion
  limit, and \<^verbatim>\<open>JSONDecodeError\<close> for every other line. The state of the world is the time
  in seconds; reading the clock and posting a request take one second each. The server
  answers 200 on \<^verbatim>\<open>/search\<close>, 404 on \<^verbatim>\<open>/missing\<close> and on the root, whose URL
  \<^verbatim>\<open>requests\<close> normalises with a final slash, and 304 on \<^verbatim>\<open>/cached\<close>; nothing listens
  anywhere else. The files are \<^verbatim>\<open>records.jsonl\<close> and \<^verbatim>\<open>nested.jsonl\<close>, whose first line is
  a hundred thousand opening brackets; futures complete in the order of submission; times
  are real numbers.
\<close>

definition json_decode_error :: py_exception where
  "json_decode_error =
     \<lparr>exc_type = JSONDecodeError,
      exc_bases = [ValueError, Exception, OtherClass ''BaseException'', OtherClass ''object''],
      message = str_of ''Expecting value: line 1 column 1 (char 0)''\<rparr>"

definition recursion_error :: py_exception where
  "recursion_error =
     \<lparr>exc_type = OtherClass ''RecursionError'',
      exc_bases = [OtherClass ''RuntimeError'', Exception, OtherClass ''BaseException'',
                   OtherClass ''object''],
      message = str_of ''maximum recursion depth exceeded while decoding ''
                @ str_of ''a JSON array from a unicode string''\<rparr>"

definition connection_refused :: py_exception where
  "connection_refused =
     \<lparr>exc_type = OtherClass ''requests.exceptions.ConnectionError'',
      exc_bases = [RequestException, OtherClass ''OSError'', Exception,
                   OtherClass ''BaseException'', OtherClass ''object''],
      message = str_of ''Connection refused''\<rparr>"

definition file_not_found :: py_exception where
  "file_not_found =
     \<lparr>exc_type = FileNotFoundError,
      exc_bases = [OtherClass ''OSError'', Exception, OtherClass ''BaseException'',
                   OtherClass ''object''],
      message = str_of ''No such file or directory''\<rparr>"

definition example_loads :: "str \<Rightarrow> py_exception + (str, str) data" where
  "example_loads line =
     (if line \<noteq> [] \<and> hd line = 123 \<and> last line = 125 then Inr (Dict line)
      else if 1000 \<le> length line \<and> list_all (\<lambda>c. c = 91) line then Inl recursion_error
      else Inl json_decode_error)"

definition example_post ::
  "nat \<Rightarrow> str \<Rightarrow> str + str \<Rightarrow> int \<Rightarrow> (py_exception + http_response) \<times> nat" where
  \<open>example_post w target sent limit =
     (if target = str_of ''http://localhost:5000/search''
      then (Inr \<lparr>status_code = 200, reason = str_of ''OK'', response_url = target,
                 content = ascii_bytes ''{"entities": []}''\<rparr>, Suc w)
      else if target = str_of ''http://localhost:5000/missing''
      then (Inr \<lparr>status_code = 404, reason = str_of ''NOT FOUND'', response_url = target,
                 content = ascii_bytes ''<!doctype html>''\<rparr>, Suc w)
      else if target = str_of ''http://localhost:5000''
      then (Inr \<lparr>status_code = 404, reason = str_of ''NOT FOUND'',
                 response_url = str_of ''http://localhost:5000/'',
                 content = ascii_bytes ''<!doctype html>''\<rparr>, Suc w)
      else if target = str_of ''http://localhost:5000/cached''
      then (Inr \<lparr>status_code = 304, reason = str_of ''NOT MODIFIED'', response_url = target,
                 content = []\<rparr>, Suc w)
      else (Inl connection_refused, Suc w))\<close>

definition example_file :: "str list" where
  \<open>example_file =
     [str_of ''{"NAME_FULL": "John Smith"}'' @ [10],
      [32, 10],
      str_of ''invalid json'' @ [10],
      str_of ''{"NAME_FULL": "Jane Doe"}'' @ [10]]\<close>

definition deep_line :: str where
  "deep_line = replicate 100000 91"

definition nested_file :: "str list" where
  \<open>nested_file = [deep_line @ [10], str_of ''{"NAME_FULL": "Jane Doe"}'' @ [10]]\<close>

definition example_runtime :: "(str, str, real, nat) runtime" where
  "example_runtime =
     \<lparr>orjson = None,
      json = \<lparr>loads = example_loads, dumps = (\<lambda>d. Inr d)\<rparr>,
      post = example_post,
      time_time = (\<lambda>w. (real w, Suc w)),
      open_file = (\<lambda>path. if path = str_of ''records.jsonl'' then Inr (example_file, None)
                           else if path = str_of ''nested.jsonl'' then Inr (nested_file, None)
                           else Inl file_not_found),
      as_completed = (\<lambda>futures. futures),
      mean = (\<lambda>xs. sum_list xs / real (length xs)),
      stdev = (\<lambda>xs. sqrt (sum_list (map (\<lambda>x. (x - sum_list xs / real (length xs))\<^sup>2) xs)
                           / real (length xs - 1)))\<rparr>"

definition example_test :: "str \<Rightarrow> real performance_test" where
  "example_test target =
     \<lparr>url = target, max_workers = 2, timeout = 10, request_times = [], error_count = 0,
      total_requests = 0, start_time = None\<rparr>"

text \<open>
  Two load generators after their runs: one with four successes and one failure, one with a
  single success.
\<close>

definition four_successes :: "real performance_test" where
  "four_successes =
     \<lparr>url = str_of ''http://localhost:5000/search'', max_workers = 2, timeout = 10,
      request_times = [0.4, 0.1, 0.3, 0.2], error_count = 1, total_requests = 5,
      start_time = Some 0\<rparr>"

definition one_success :: "real performance_test" where
  "one_success =
     \<lparr>url = str_of ''http://localhost:5000/search'', max_workers = 2, timeout = 10,
      request_times = [0.25], error_count = 0, total_requests = 1,
      start_time = Some 0\<rparr>"

section \<open>Properties of the error classifier\<close>

lemma map_of_table_category: "map_of EXCEPTION_HTTP_CODES c = category_code c"
  by (cases c) (simp_all add: EXCEPTION_HTTP_CODES_def)

lemma table_keys_order: "map fst EXCEPTION_HTTP_CODES = category_order"
  by (simp add: EXCEPTION_HTTP_CODES_def category_order_def)

lemma table_codes: "snd ` set EXCEPTION_HTTP_CODES \<subseteq> http_codes"
  by (simp add: EXCEPTION_HTTP_CODES_def http_codes_def)

lemma scan_table_in_table: "scan_table e tbl = Some code \<Longrightarrow> code \<in> snd ` set tbl"
  by (induction tbl) (auto split: if_splits)

lemma scan_table_find:
  "scan_table e tbl = map_option snd (List.find (\<lambda>entry. isinstance e (fst entry)) tbl)"
  by (induction tbl) auto

lemma find_map_fst:
  "List.find P (map fst tbl) = map_option fst (List.find (\<lambda>entry. P (fst entry)) tbl)"
  by (induction tbl) auto

lemma find_in_table:
  "List.find Q tbl = Some entry \<Longrightarrow> distinct (map fst tbl) \<Longrightarrow> map_of tbl (fst entry) = Some (snd entry)"
  by (induction tbl) (auto split: if_splits simp: rev_image_eqI)

lemma table_distinct: "distinct (map fst EXCEPTION_HTTP_CODES)"
  by (simp add: EXCEPTION_HTTP_CODES_def)

lemma exception_to_code_range: "exception_to_code e \<in> http_codes"
proof (cases "map_of EXCEPTION_HTTP_CODES (exc_type e)")
  case (Some code)
  then have "(exc_type e, code) \<in> set EXCEPTION_HTTP_CODES"
    by (rule map_of_SomeD)
  then have "code \<in> snd ` set EXCEPTION_HTTP_CODES"
    by force
  with table_codes Some show ?thesis
    by (auto simp: exception_to_code_def)
next
  case None
  show ?thesis
  proof (cases "scan_table e EXCEPTION_HTTP_CODES")
    case (Some code)
    from scan_table_in_table [OF Some] table_codes \<open>map_of _ _ = None\<close> Some show ?thesis
      by (auto simp: exception_to_code_def)
  next
    case None
    with \<open>map_of _ _ = None\<close> show ?thesis
      by (simp add: exception_to_code_def http_codes_def)
  qed
qed

lemma exception_to_code_refines: "exception_to_code e = classify_spec e"
proof (cases "category_code (exc_type e)")
  case (Some code)
  then show ?thesis
    by (simp add: exception_to_code_def classify_spec_def map_of_table_category)
next
  case None
  show ?thesis
  proof (cases "List.find (\<lambda>entry. isinstance e (fst entry)) EXCEPTION_HTTP_CODES")
    case no: None
    then have "List.find (isinstance e) category_order = None"
      by (simp add: table_keys_order [symmetric] find_map_fst)
    with None no show ?thesis
      by (simp add: exception_to_code_def classify_spec_def map_of_table_category scan_table_find)
  next
    case (Some entry)
    then have f: "List.find (isinstance e) category_order = Some (fst entry)"
      by (simp add: table_keys_order [symmetric] find_map_fst)
    from find_in_table [OF Some table_distinct]
    have "category_code (fst entry) = Some (snd entry)"
      by (simp add: map_of_table_category)
    with None Some f show ?thesis
      by (simp add: exception_to_code_def classify_spec_def map_of_table_category scan_table_find)
  qed
qed

text \<open>An exception of a class outside the table and below none of its classes gets 500.\<close>

lemma exception_to_code_plain_exception:
  "exception_to_code
     \<lparr>exc_type = Exception,
      exc_bases = [OtherClass ''BaseException'', OtherClass ''object''],
      message = str_of ''Test error''\<rparr> = 500"
  by (simp add: exception_to_code_def EXCEPTION_HTTP_CODES_def isinstance_def)

text \<open>
  The exact class decides before the scan: an object of class \<^verbatim>\<open>SzNotFoundError\<close> gets 404
  even when that class derives from \<^verbatim>\<open>SzBadInputError\<close>, which stands earlier in the table;
  an object of an unlisted subclass of \<^verbatim>\<open>SzNotFoundError\<close> gets the 400 of the earlier entry.
\<close>

lemma exception_to_code_exact_class_first:
  "exception_to_code
     \<lparr>exc_type = SzNotFoundError, exc_bases = [SzBadInputError, SzError, Exception],
      message = msg\<rparr> = 404"
  "exception_to_code
     \<lparr>exc_type = OtherClass ''MyNotFound'',
      exc_bases = [SzNotFoundError, SzBadInputError, SzError, Exception],
      message = msg\<rparr> = 400"
  by (simp_all add: exception_to_code_def EXCEPTION_HTTP_CODES_def isinstance_def)

text \<open>
  C1. For every raised object, \<^verbatim>\<open>exception_to_code\<close> returns one of the ten status codes
  400, 403, 404, 408, 409, 422, 500, 502, 503, 504, and that code is the one the
  specification describes: the code of the exact class when the class is a failure category
  of the table, otherwise the code of the first category, in the table's order, of which
  the object is an instance, otherwise 500.
\<close>

theorem exception_to_code_classifies:
  "exception_to_code e \<in> {400, 403, 404, 408, 409, 422, 500, 502, 503, 504}
   \<and> exception_to_code e = classify_spec e"
  using exception_to_code_range [of e] exception_to_code_refines [of e]
  by (simp add: http_codes_def)

section \<open>Properties of the search endpoint\<close>

lemma utf8_decode_ascii:
  "list_all (\<lambda>b. b < 0x80) bs \<Longrightarrow> utf8_decode bs = Some (map unat bs)"
  by (induction bs) simp_all

lemma flags_fixed:
  "(case given_flags of
      None \<Rightarrow> d
    | Some given \<Rightarrow> (if given = [] then d else (let user_flags = split_on sep given in d))) = d"
  by (simp split: option.split)

text \<open>
  When the request data decodes, handling the request is one call of the engine, with the
  decoded data, the default flags and the profile: the engine is left in the state in which
  that call leaves it, and the response is made from what that call returns or raises.
\<close>

lemma do_search_decoded:
  assumes "utf8_decode (request_data req) = Some s"
  shows "do_search sz st req =
    (let answer = search_by_attributes sz st s (SZ_SEARCH_BY_ATTRIBUTES_DEFAULT_FLAGS sz)
                    (profile_or_default (args_get req (str_of ''profile'')))
     in \<lparr>outcome =
           (case fst answer of
              Inr result \<Rightarrow> Responded (make_response_str result)
            | Inl err \<Rightarrow>
                if isinstance err Exception
                then Responded (with_status (jsonify [(''error'', message err)])
                                  (exception_to_code err))
                else Propagated err),
         engine_state = snd answer,
         stderr_output =
           (case fst answer of
              Inr result \<Rightarrow> []
            | Inl err \<Rightarrow>
                if isinstance err Exception
                then [message err @ str_of '' ['' @ s @ str_of '']''] else [])\<rparr>)"
  using assms
  by (auto simp add: do_search_def decode_def process_search_def Let_def flags_fixed
      split: sum.split prod.split)

lemma do_search_undecoded:
  assumes "utf8_decode (request_data req) = None"
  shows "do_search sz st req =
    \<lparr>outcome = Propagated unicode_decode_error, engine_state = st, stderr_output = []\<rparr>"
  using assms by (simp add: do_search_def decode_def)

text \<open>
  When the data decodes and the engine returns \<open>r\<close>, the endpoint answers 200 with the body
  \<open>r\<close>, unchanged, under Flask's default mimetype.
\<close>

lemma do_search_success:
  assumes "utf8_decode (request_data req) = Some s"
    and "fst (search_by_attributes sz st s (SZ_SEARCH_BY_ATTRIBUTES_DEFAULT_FLAGS sz)
           (profile_or_default (args_get req (str_of ''profile'')))) = Inr r"
  shows "outcome (do_search sz st req) =
           Responded \<lparr>status = 200, mimetype = ''text/html'', payload = Text r\<rparr>"
  using assms(2) by (simp add: do_search_decoded [OF assms(1)] make_response_str_def Let_def)

text \<open>
  When the data decodes and the engine raises an \<^verbatim>\<open>Exception\<close> \<open>e\<close>, the endpoint answers
  with the status \<open>exception_to_code e\<close> and the JSON object whose only member is \<open>error\<close>,
  the message of \<open>e\<close>.
\<close>

lemma do_search_failure:
  assumes "utf8_decode (request_data req) = Some s"
    and "fst (search_by_attributes sz st s (SZ_SEARCH_BY_ATTRIBUTES_DEFAULT_FLAGS sz)
           (profile_or_default (args_get req (str_of ''profile'')))) = Inl e"
    and "isinstance e Exception"
  shows "outcome (do_search sz st req) =
           Responded \<lparr>status = exception_to_code e, mimetype = ''application/json'',
                      payload = JsonObject [(''error'', message e)]\<rparr>"
  using assms(2,3)
  by (simp add: do_search_decoded [OF assms(1)] jsonify_def with_status_def Let_def)

text \<open>
  So, once the data has decoded, the endpoint always responds, unless the engine raises
  something that is not an \<^verbatim>\<open>Exception\<close>.
\<close>

lemma do_search_handles_exceptions:
  assumes "utf8_decode (request_data req) = Some s"
  shows "(\<exists>r. outcome (do_search sz st req) = Responded r)
    \<or> (\<exists>e. outcome (do_search sz st req) = Propagated e \<and> \<not> isinstance e Exception)"
  by (simp add: do_search_decoded [OF assms] Let_def split: sum.split)

lemma example_request_decodes:
  \<open>utf8_decode (request_data example_request) = Some (str_of ''{"NAME_FULL": "Jane Doe"}'')\<close>
  by code_simp

lemma undecodable_request_data: "utf8_decode (request_data undecodable_request) = None"
  by code_simp

lemma form_request_data: "request_data form_request = []"
  by (simp add: form_request_def request_data_def)

lemma instrumented_call:
  "search_by_attributes (instrumented engine) (calls, st) attributes flags search_profile =
     (fst (search_by_attributes engine st attributes flags search_profile),
      calls @ [(attributes, flags, search_profile)],
      snd (search_by_attributes engine st attributes flags search_profile))"
  by (simp add: instrumented_def Let_def split: prod.split)

lemma instrumented_flags:
  "SZ_SEARCH_BY_ATTRIBUTES_DEFAULT_FLAGS (instrumented engine) =
     SZ_SEARCH_BY_ATTRIBUTES_DEFAULT_FLAGS engine"
  by (simp add: instrumented_def)

text \<open>
  C3. The claim is that every failure raised while a request is handled becomes a response
  with the status \<open>exception_to_code e\<close> and never leaves the endpoint. The body is decoded
  before the \<^verbatim>\<open>try\<close>: for the request whose body is the byte \<open>0xFF\<close> the
  \<^verbatim>\<open>UnicodeDecodeError\<close> of \<^verbatim>\<open>request.data.decode()\<close> leaves \<^verbatim>\<open>do_search\<close>, although it is an
  \<^verbatim>\<open>Exception\<close> that the classifier maps to 400.
\<close>

theorem do_search_undecodable_body_propagates:
  "outcome (do_search sz st undecodable_request) = Propagated unicode_decode_error
   \<and> isinstance unicode_decode_error Exception
   \<and> exception_to_code unicode_decode_error = 400"
  by (simp add: do_search_undecoded [OF undecodable_request_data] isinstance_def
      unicode_decode_error_def exception_to_code_def EXCEPTION_HTTP_CODES_def)

text \<open>
  C4. The claim is that a successful search is answered with status 200, the result string
  as body and the content type \<^verbatim>\<open>application/json\<close>. The view returns the string itself,
  so the status is 200 and the body is the result, but the content type is Flask's default
  \<^verbatim>\<open>text/html\<close>; only the error path, which goes through \<^verbatim>\<open>jsonify\<close>, answers with
  \<^verbatim>\<open>application/json\<close>.
\<close>

theorem do_search_success_mimetype:
  \<open>outcome (do_search example_engine 0 example_request) =
     Responded \<lparr>status = 200, mimetype = ''text/html'',
                payload = Text (str_of ''{"entities": []}'')\<rparr>\<close>
  by (rule do_search_success [OF example_request_decodes]) (simp add: example_engine_def)

text \<open>
  C5. The claim is that for every POST the engine is invoked with exactly the decoded
  request body, the default flags and the profile. The code passes the decoding of
  \<^verbatim>\<open>request.data\<close>, and that differs from the claim for two kinds of request. A request
  whose data is not UTF-8 never reaches the engine, and for a form-encoded request
  \<^verbatim>\<open>request.data\<close> is not the posted body but what the form parser left of it. What holds
  is stated on the instrumented engine, for every engine it may wrap and from every state:
  when \<^verbatim>\<open>request.data\<close> decodes, handling the request adds exactly one call to the calls
  made on the engine, with the decoded data as it is, the default flags whatever the
  \<^verbatim>\<open>flags\<close> parameter holds, and the value of the \<^verbatim>\<open>profile\<close> parameter, or \<^verbatim>\<open>SEARCH\<close> when
  that is absent or empty; the wrapped engine is left in the state in which that call, made
  in the state \<open>st\<close>, leaves it. When \<^verbatim>\<open>request.data\<close> does not decode, no call is made
  and the engine stays as it was.
\<close>

theorem do_search_engine_arguments:
  "(\<forall>user_request. utf8_decode (request_data req) = Some user_request \<longrightarrow>
      engine_state (do_search (instrumented engine) (calls, st) req) =
        (calls @
           [(user_request, SZ_SEARCH_BY_ATTRIBUTES_DEFAULT_FLAGS engine,
             (case map_of (req_args req) (str_of ''profile'') of
                None \<Rightarrow> str_of ''SEARCH''
              | Some profile \<Rightarrow> if profile = [] then str_of ''SEARCH'' else profile))],
         snd (search_by_attributes engine st user_request
                (SZ_SEARCH_BY_ATTRIBUTES_DEFAULT_FLAGS engine)
                (case map_of (req_args req) (str_of ''profile'') of
                   None \<Rightarrow> str_of ''SEARCH''
                 | Some profile \<Rightarrow> if profile = [] then str_of ''SEARCH'' else profile))))
   \<and> (utf8_decode (request_data req) = None \<longrightarrow>
        engine_state (do_search (instrumented engine) (calls, st) req) = (calls, st))"
proof -
  have profile: "profile_or_default (args_get req (str_of ''profile'')) =
      (case map_of (req_args req) (str_of ''profile'') of
         None \<Rightarrow> str_of ''SEARCH''
       | Some profile \<Rightarrow> if profile = [] then str_of ''SEARCH'' else profile)"
    by (simp add: args_get_def split: option.split)
  show ?thesis
    by (simp add: do_search_decoded do_search_undecoded instrumented_call instrumented_flags
        Let_def profile del: profile_or_default.simps)
qed

theorem do_search_engine_arguments_witness:
  \<open>utf8_decode (request_data example_request) = Some (str_of ''{"NAME_FULL": "Jane Doe"}'')
   \<and> engine_state (do_search (instrumented example_engine) ([], 0) example_request) =
       ([(str_of ''{"NAME_FULL": "Jane Doe"}'', 0, str_of ''CUSTOM'')], 1)
   \<and> utf8_decode (request_data undecodable_request) = None
   \<and> engine_state (do_search (instrumented example_engine) ([], 0) undecodable_request) =
       ([], 0)\<close>
  using do_search_engine_arguments [of example_request example_engine "[]" 0]
    do_search_engine_arguments [of undecodable_request example_engine "[]" 0]
  by (simp add: example_request_decodes undecodable_request_data)
     (simp add: example_engine_def example_request_def str_of_def)

text \<open>
  Two requests for which the engine does not get the decoded body. The request whose body
  is the byte \<open>0xFF\<close> makes no call on the engine. The form-encoded request posts the bytes
  of \<^verbatim>\<open>NAME_FULL=Jane\<close>, which decode, but its \<^verbatim>\<open>request.data\<close> is empty, and the engine
  is called with the empty string.
\<close>

theorem do_search_engine_gets_request_data:
  \<open>engine_state (do_search (instrumented example_engine) ([], 0) undecodable_request) = ([], 0)
   \<and> utf8_decode (req_body form_request) = Some (str_of ''NAME_FULL=Jane'')
   \<and> engine_state (do_search (instrumented example_engine) ([], 0) form_request) =
       ([([], 0, str_of ''SEARCH'')], 1)\<close>
proof -
  have body: \<open>utf8_decode (req_body form_request) = Some (str_of ''NAME_FULL=Jane'')\<close>
    by code_simp
  have data: "utf8_decode (request_data form_request) = Some []"
    by (simp add: form_request_data)
  have form: \<open>engine_state (do_search (instrumented example_engine) ([], 0) form_request) =
       ([([], 0, str_of ''SEARCH'')], 1)\<close>
    by (simp add: do_search_decoded [OF data] instrumented_call instrumented_flags Let_def
        args_get_def)
       (simp add: example_engine_def form_request_def)
  show ?thesis
    by (simp add: do_search_undecoded [OF undecodable_request_data] body form)
qed

section \<open>Properties of the start-up\<close>

text \<open>
  The size of the pool: the value of \<^verbatim>\<open>SENZING_THREADS_PER_PROCESS\<close> when it is a positive
  integer, the default of the library when the variable is unset or zero.
\<close>

lemma module_init_pool_size:
  assumes "getenv os ''SENZING_ENGINE_CONFIGURATION_JSON'' = Some settings" "settings \<noteq> []"
    and "create_engine os settings = Inr sz_engine"
  shows "getenv os ''SENZING_THREADS_PER_PROCESS'' = None
           \<Longrightarrow> ending (module_init os) = Initialized sz_engine (default_workers os)"
    and "getenv os ''SENZING_THREADS_PER_PROCESS'' = Some given \<Longrightarrow> py_int os given = Inr 0
           \<Longrightarrow> ending (module_init os) = Initialized sz_engine (default_workers os)"
    and "getenv os ''SENZING_THREADS_PER_PROCESS'' = Some given \<Longrightarrow> py_int os given = Inr w
           \<Longrightarrow> 0 < w \<Longrightarrow> ending (module_init os) = Initialized sz_engine (nat w)"
  using assms by (simp_all add: module_init_def Let_def)

text \<open>
  C6. When \<^verbatim>\<open>SENZING_ENGINE_CONFIGURATION_JSON\<close> is unset or empty, the process prints
  the diagnostic, which names that variable, to the error stream and leaves through
  \<^verbatim>\<open>exit(-1)\<close>, exit status 255, without ever binding a listener.
\<close>

theorem missing_configuration_exits:
  assumes "getenv os ''SENZING_ENGINE_CONFIGURATION_JSON'' = None
           \<or> getenv os ''SENZING_ENGINE_CONFIGURATION_JSON'' = Some []"
  shows "printed_err (run_script os) = [CONFIG_DIAGNOSTIC]
    \<and> (\<exists>before after.
          CONFIG_DIAGNOSTIC = before @ str_of ''SENZING_ENGINE_CONFIGURATION_JSON'' @ after)
    \<and> ending (run_script os) = SystemExit (- 1)
    \<and> exit_status (- 1) = 255
    \<and> \<not> listener_bound (ending (run_script os))"
proof -
  have "CONFIG_DIAGNOSTIC =
      str_of ''The environment variable '' @ str_of ''SENZING_ENGINE_CONFIGURATION_JSON''
      @ (str_of '' must be set with a proper JSON configuration.'' @ [10]
         @ str_of ''Please see https://senzing.zendesk.com/hc/en-us/articles/''
         @ str_of ''360038774134-G2Module-Configuration-and-the-Senzing-API'')"
    by (simp add: CONFIG_DIAGNOSTIC_def str_of_def)
  then have "\<exists>before after.
      CONFIG_DIAGNOSTIC = before @ str_of ''SENZING_ENGINE_CONFIGURATION_JSON'' @ after"
    by blast
  moreover from assms have "module_init os =
      \<lparr>printed_err = [CONFIG_DIAGNOSTIC], logged = [], ending = SystemExit (- 1)\<rparr>"
    by (auto simp: module_init_def Let_def)
  ultimately show ?thesis
    by (simp add: run_script_def main_block_def exit_status_def)
qed

theorem missing_configuration_exits_witness:
  "getenv bare_platform ''SENZING_ENGINE_CONFIGURATION_JSON'' = None
   \<and> printed_err (run_script bare_platform) = [CONFIG_DIAGNOSTIC]
   \<and> ending (run_script bare_platform) = SystemExit (- 1)
   \<and> \<not> listener_bound (ending (run_script bare_platform))
   \<and> getenv blank_config_platform ''SENZING_ENGINE_CONFIGURATION_JSON'' = Some []
   \<and> printed_err (run_script blank_config_platform) = [CONFIG_DIAGNOSTIC]
   \<and> ending (run_script blank_config_platform) = SystemExit (- 1)
   \<and> \<not> listener_bound (ending (run_script blank_config_platform))"
proof -
  have unset: "getenv bare_platform ''SENZING_ENGINE_CONFIGURATION_JSON'' = None"
    by (simp add: bare_platform_def)
  have blank: "getenv blank_config_platform ''SENZING_ENGINE_CONFIGURATION_JSON'' = Some []"
    by (simp add: blank_config_platform_def)
  from missing_configuration_exits [of bare_platform]
    missing_configuration_exits [of blank_config_platform] unset blank
  show ?thesis
    by simp
qed

section \<open>Properties of \<^verbatim>\<open>send_request\<close>\<close>

lemma send_request_post:
  "send_request rt self w data =
     (let entry = time_time rt w
      in case serialised rt data of
           Inl e \<Rightarrow> request_failed rt (fst entry) (snd entry) e
         | Inr body \<Rightarrow>
             (let answer = post rt (snd entry) (url self) body (timeout self);
                  arrival = time_time rt (snd answer)
              in case fst answer of
                   Inl e \<Rightarrow> request_failed rt (fst entry) (snd answer) e
                 | Inr response \<Rightarrow>
                     (case raise_for_status response of
                        Some e \<Rightarrow> request_failed rt (fst entry) (snd arrival) e
                      | None \<Rightarrow>
                          (Inr (Success (fst arrival - fst entry) (status_code response)
                                  (length (content response))), snd arrival))))"
  by (simp add: send_request_def serialised_def Let_def case_prod_beta
      split: data.split option.split sum.split)






lemma example_serialised: "serialised example_runtime (Dict d) = Inr (Inl d)"
  by (simp add: serialised_def example_runtime_def)






section \<open>Properties of \<^verbatim>\<open>process_file\<close>\<close>

lemma read_lines_all:
  assumes "\<forall>raw\<in>set rows. \<forall>e. parse (strip raw) = Inl e \<longrightarrow> isinstance e JSONDecodeError"
  shows "read_lines parse k rows futures out =
           \<lparr>submitted = futures @ List.map_filter (well_formed parse) rows,
            printed = out @ List.map_filter (rejected parse) (enumerate k rows),
            raised = None\<rparr>"
  using assms
proof (induction rows arbitrary: k futures out)
  case Nil
  then show ?case by (simp add: map_filter_simps)
next
  case (Cons raw rest)
  then show ?case
    by (cases "parse (strip raw)")
       (auto simp add: map_filter_simps well_formed_def rejected_def Let_def)
qed

lemma rejected_invalid: "filter is_invalid_json (List.map_filter (rejected parse) numbered)
   = List.map_filter (rejected parse) numbered"
  by (induction numbered) (auto simp: map_filter_simps rejected_def split: option.split sum.split)

text \<open>The instrumented runtime: what it answers, and what it adds to the list.\<close>

lemma recording_post:
  "post (recording rt) W target body limit =
     (fst (post rt (snd W) target body limit),
      fst W @ [(target, body, limit)],
      snd (post rt (snd W) target body limit))"
  by (simp add: recording_def case_prod_beta Let_def)

lemma recording_time:
  "time_time (recording rt) W =
     (fst (time_time rt (snd W)), fst W, snd (time_time rt (snd W)))"
  by (simp add: recording_def case_prod_beta Let_def)

lemma recording_open_file: "open_file (recording rt) = open_file rt"
  by (simp add: recording_def)

lemma recording_json: "orjson (recording rt) = orjson rt" "json (recording rt) = json rt"
  by (simp_all add: recording_def)

lemma recording_parse_line: "parse_line (recording rt) = parse_line rt"
  by (rule ext) (simp add: parse_line_def recording_json split: option.split)

lemma recording_serialised: "serialised (recording rt) = serialised rt"
  by (rule ext) (simp add: serialised_def recording_json split: option.split data.split)

text \<open>
  One call of \<^verbatim>\<open>send_request\<close> for a record that serialises posts exactly one request,
  to the URL of the object, with the serialised record and the timeout of the object,
  however the request ends; for a record that does not serialise it posts nothing.
\<close>

lemma send_request_sent:
  "fst (snd (send_request (recording rt) self W data)) =
     fst W @ (case request_for rt self data of None \<Rightarrow> [] | Some request \<Rightarrow> [request])"
  by (simp add: send_request_post recording_post recording_time recording_serialised
      request_for_def request_failed_def Let_def case_prod_beta split: sum.split option.split)

lemma run_futures_sent:
  "fst (snd (run_futures (recording rt) self W records)) =
     fst W @ List.map_filter (request_for rt self) records"
proof (induction records arbitrary: W)
  case Nil
  then show ?case by (simp add: map_filter_simps)
next
  case (Cons r rest)
  then show ?case
    by (simp add: case_prod_beta Let_def send_request_sent map_filter_simps
        split: option.split)
qed

lemma request_for_started:
  "request_for rt (self\<lparr>start_time := started\<rparr>) = request_for rt self"
  by (rule ext) (simp add: request_for_def split: sum.split)

text \<open>Collecting the results posts nothing and leaves the reports of invalid lines.\<close>

lemma count_exception_kept:
  "filter is_invalid_json (lines_out (count_exception c e)) = filter is_invalid_json (lines_out c)"
  "world_now (count_exception c e) = world_now c"
  by (simp_all add: count_exception_def)

lemma record_result_invalid:
  "filter is_invalid_json (lines_out (record_result rt i c r))
     = filter is_invalid_json (lines_out c)"
  by (cases r) (simp_all add: record_result_def Let_def count_exception_def case_prod_beta)

lemma record_result_sent:
  "fst (world_now (record_result (recording rt) i c r)) = fst (world_now c)"
  by (cases r)
     (simp_all add: record_result_def Let_def count_exception_def case_prod_beta recording_time)

lemma collect_invalid:
  "filter is_invalid_json (lines_out (snd (collect rt i futures c)))
     = filter is_invalid_json (lines_out c)"
proof (induction futures arbitrary: c)
  case Nil
  then show ?case by simp
next
  case (Cons future rest)
  then show ?case
    by (cases future) (simp_all add: count_exception_kept record_result_invalid)
qed

lemma collect_sent:
  "fst (world_now (snd (collect (recording rt) i futures c))) = fst (world_now c)"
proof (induction futures arbitrary: c)
  case Nil
  then show ?case by simp
next
  case (Cons future rest)
  then show ?case
    by (cases future) (simp_all add: count_exception_kept record_result_sent)
qed

lemma run_failed_kept:
  "world_after (run_failed path self w out e) = w"
  "filter is_invalid_json (run_output (run_failed path self w out e))
     = filter is_invalid_json out"
  by (simp_all add: run_failed_def)

text \<open>
  A run on a file that opens, with a pool of positive size, posts the records that the
  reading loop submitted, in the order of submission, and nothing else.
\<close>

lemma process_file_opened:
  assumes "open_file rt path = Inr (rows, read_error)" and "0 < max_workers self"
  shows "fst (world_after (process_file (recording rt) self (sent, w) path interval))
           = sent @ List.map_filter (request_for rt self)
                      (submitted (read_lines (parse_line rt) 1 rows []
                         [Started (max_workers self) (url self) (timeout self) interval]))"
  using assms
  by (simp add: process_file_def Let_def case_prod_beta recording_open_file
      recording_parse_line recording_time run_futures_sent collect_sent run_failed_kept
      request_for_started split: option.split sum.split)

lemma process_file_opened_output:
  assumes "open_file rt path = Inr (rows, read_error)" and "0 < max_workers self"
  shows "filter is_invalid_json (run_output (process_file (recording rt) self W path interval))
           = filter is_invalid_json (printed (read_lines (parse_line rt) 1 rows []
                          [Started (max_workers self) (url self) (timeout self) interval]))"
  using assms
  by (simp add: process_file_def Let_def case_prod_beta recording_open_file
      recording_parse_line collect_invalid run_failed_kept
      split: option.split sum.split)

lemma process_file_missing:
  assumes "open_file rt path = Inl e" "isinstance e FileNotFoundError"
  shows "returns (process_file (recording rt) self (sent, w) path interval) = Inr False
     \<and> fst (world_after (process_file (recording rt) self (sent, w) path interval)) = sent
     \<and> run_output (process_file (recording rt) self (sent, w) path interval)
         = [Started (max_workers self) (url self) (timeout self) interval, FileNotFound path]"
  using assms
  by (simp add: process_file_def Let_def case_prod_beta recording_open_file recording_time
      run_failed_def)

text \<open>
  A run with a pool whose size is not positive ends with the \<^verbatim>\<open>ValueError\<close> of the pool:
  it reports an unexpected error and returns \<^verbatim>\<open>False\<close>, and nothing is posted.
\<close>

lemma process_file_no_workers:
  assumes "open_file rt path = Inr (rows, read_error)" and "max_workers self \<le> 0"
  shows "returns (process_file (recording rt) self (sent, w) path interval) = Inr False
     \<and> fst (world_after (process_file (recording rt) self (sent, w) path interval)) = sent
     \<and> run_output (process_file (recording rt) self (sent, w) path interval)
         = [Started (max_workers self) (url self) (timeout self) interval,
            UnexpectedError (str_of ''max_workers must be greater than 0'')]"
  using assms
  by (simp add: process_file_def Let_def case_prod_beta recording_open_file recording_time
      run_failed_def isinstance_def pool_size_error_def)

text \<open>
  A run in which the parser raises something else than \<^verbatim>\<open>JSONDecodeError\<close> on the first
  line that is not blank ends there: it reports an unexpected error and returns \<^verbatim>\<open>False\<close>,
  and nothing is posted, whatever the lines after it hold.
\<close>

lemma process_file_first_line_raises:
  assumes "open_file rt path = Inr (raw # rows, read_error)" and "0 < max_workers self"
    and "strip raw \<noteq> []" and "parse_line rt (strip raw) = Inl e"
    and "\<not> isinstance e JSONDecodeError" and "\<not> isinstance e FileNotFoundError"
    and "isinstance e Exception"
  shows "returns (process_file (recording rt) self (sent, w) path interval) = Inr False
     \<and> fst (world_after (process_file (recording rt) self (sent, w) path interval)) = sent
     \<and> run_output (process_file (recording rt) self (sent, w) path interval)
         = [Started (max_workers self) (url self) (timeout self) interval,
            UnexpectedError (message e)]"
  using assms
  by (simp add: process_file_def Let_def case_prod_beta recording_open_file recording_time
      recording_parse_line run_failed_def)

text \<open>The example files.\<close>

lemma strip_line:
  assumes "line \<noteq> []" and "\<not> isspace (hd line)" and "\<not> isspace (last line)"
  shows "strip (line @ [10]) = line"
proof -
  have front: "dropWhile isspace (line @ [10]) = line @ [10]"
    using assms(1,2) by (cases line) simp_all
  have behind: "dropWhile isspace (rev line) = rev line"
    using assms(1,3) by (cases "rev line") (simp_all add: last_rev [symmetric] del: last_rev)
  have "isspace 10"
    by (simp add: isspace_def)
  then show ?thesis
    by (simp add: strip_def front behind)
qed

lemma deep_line_shape:
  "deep_line \<noteq> []" "hd deep_line = 91" "last deep_line = 91" "length deep_line = 100000"
  "list_all (\<lambda>c. c = 91) deep_line"
  by (simp_all add: deep_line_def list_all_iff)

lemma deep_line_stripped: "strip (deep_line @ [10]) = deep_line"
  by (rule strip_line) (simp_all add: deep_line_shape isspace_def)

lemma deep_line_parse: "parse_line example_runtime deep_line = Inl recursion_error"
  by (simp add: parse_line_def example_runtime_def example_loads_def deep_line_shape)

lemma example_parse_failures:
  "length line < 1000 \<Longrightarrow> parse_line example_runtime line = Inl e
     \<Longrightarrow> isinstance e JSONDecodeError"
  by (auto simp add: parse_line_def example_runtime_def example_loads_def isinstance_def
      json_decode_error_def split: if_splits)

lemma example_lines_stripped:
  \<open>strip (str_of ''{"NAME_FULL": "John Smith"}'' @ [10]) = str_of ''{"NAME_FULL": "John Smith"}''\<close>
  "strip [32, 10] = []"
  "strip (str_of ''invalid json'' @ [10]) = str_of ''invalid json''"
  \<open>strip (str_of ''{"NAME_FULL": "Jane Doe"}'' @ [10]) = str_of ''{"NAME_FULL": "Jane Doe"}''\<close>
  by (simp_all add: strip_def isspace_def str_of_def)

lemma example_lines_parsed:
  \<open>parse_line example_runtime (str_of ''{"NAME_FULL": "John Smith"}'')
      = Inr (Dict (str_of ''{"NAME_FULL": "John Smith"}''))\<close>
  "parse_line example_runtime (str_of ''invalid json'') = Inl json_decode_error"
  \<open>parse_line example_runtime (str_of ''{"NAME_FULL": "Jane Doe"}'')
      = Inr (Dict (str_of ''{"NAME_FULL": "Jane Doe"}''))\<close>
  by (simp_all add: parse_line_def example_runtime_def example_loads_def str_of_def)

lemma example_lines_not_blank:
  \<open>str_of ''{"NAME_FULL": "John Smith"}'' \<noteq> []\<close> "str_of ''invalid json'' \<noteq> []"
  \<open>str_of ''{"NAME_FULL": "Jane Doe"}'' \<noteq> []\<close>
  by (simp_all add: str_of_def)

lemma example_file_well_formed:
  \<open>List.map_filter (well_formed (parse_line example_runtime)) example_file
      = [Dict (str_of ''{"NAME_FULL": "John Smith"}''), Dict (str_of ''{"NAME_FULL": "Jane Doe"}'')]\<close>
  by (simp add: example_file_def map_filter_simps well_formed_def example_lines_stripped
      example_lines_parsed example_lines_not_blank)

lemma example_file_rejected:
  "List.map_filter (rejected (parse_line example_runtime)) (enumerate 1 example_file)
      = [InvalidJson 3 (str_of ''Expecting value: line 1 column 1 (char 0)'')]"
  by (simp add: example_file_def map_filter_simps rejected_def example_lines_stripped
      example_lines_parsed example_lines_not_blank json_decode_error_def)

lemma example_file_failures:
  "\<forall>raw\<in>set example_file. \<forall>e. parse_line example_runtime (strip raw) = Inl e
      \<longrightarrow> isinstance e JSONDecodeError"
proof -
  have "length (strip raw) < 1000" if "raw \<in> set example_file" for raw
    using that by (auto simp add: example_file_def example_lines_stripped) (simp_all add: str_of_def)
  then show ?thesis
    by (blast intro: example_parse_failures)
qed

text \<open>
  C8. The claim is that every line that is not blank and parses as JSON leads to exactly
  one HTTP POST, that a blank line and a line of invalid JSON are skipped without ending the
  run, and that a missing input file makes the run report an error and return \<^verbatim>\<open>False\<close>.
  The code does this when the pool can be built, that is when \<^verbatim>\<open>max_workers\<close> is
  positive, and when the parser fails with \<^verbatim>\<open>JSONDecodeError\<close> only, the one exception
  that the reading loop catches; and the request is posted when the record serialises.

  The property is stated on the instrumented runtime, for every runtime it may wrap and
  from every state of the world, \<open>sent\<close> being the requests posted before the run. When the
  input file is missing, the run prints the error and returns \<^verbatim>\<open>False\<close>, and nothing is
  posted. When the file opens, the pool has a positive size and the parser fails only with
  \<^verbatim>\<open>JSONDecodeError\<close>, the calls of \<^verbatim>\<open>requests.post\<close> made by the run are exactly one
  for each line that is not blank and parses to a record that serialises, in the order of
  the lines, to the URL of the object, with the serialised record as body and the timeout of
  the object; and the lines that are not blank and do not parse are exactly the ones
  reported as invalid, with their line numbers. Neither a blank line nor a line that does
  not parse keeps a later line from being read.
\<close>

theorem process_file_input_handling:
  "(\<forall>e. open_file rt path = Inl e \<longrightarrow> isinstance e FileNotFoundError \<longrightarrow>
       returns (process_file (recording rt) self (sent, w) path interval) = Inr False
       \<and> fst (world_after (process_file (recording rt) self (sent, w) path interval)) = sent
       \<and> run_output (process_file (recording rt) self (sent, w) path interval)
           = [Started (max_workers self) (url self) (timeout self) interval, FileNotFound path])
   \<and> (\<forall>rows read_error. open_file rt path = Inr (rows, read_error) \<longrightarrow>
        0 < max_workers self \<longrightarrow>
        (\<forall>raw\<in>set rows. \<forall>e. parse_line rt (strip raw) = Inl e
            \<longrightarrow> isinstance e JSONDecodeError) \<longrightarrow>
        fst (world_after (process_file (recording rt) self (sent, w) path interval))
          = sent @ List.map_filter (request_for rt self)
                     (List.map_filter (well_formed (parse_line rt)) rows)
        \<and> filter is_invalid_json
            (run_output (process_file (recording rt) self (sent, w) path interval))
          = List.map_filter (rejected (parse_line rt)) (enumerate 1 rows))"
  by (simp add: process_file_missing process_file_opened process_file_opened_output
      read_lines_all rejected_invalid)

theorem process_file_input_handling_witness:
  \<open>open_file example_runtime (str_of ''nothing.jsonl'') = Inl file_not_found
   \<and> isinstance file_not_found FileNotFoundError
   \<and> returns (process_file (recording example_runtime)
        (example_test (str_of ''http://localhost:5000/search'')) ([], 0)
        (str_of ''nothing.jsonl'') 1000) = Inr False
   \<and> fst (world_after (process_file (recording example_runtime)
        (example_test (str_of ''http://localhost:5000/search'')) ([], 0)
        (str_of ''nothing.jsonl'') 1000)) = []
   \<and> open_file example_runtime (str_of ''records.jsonl'') = Inr (example_file, None)
   \<and> 0 < max_workers (example_test (str_of ''http://localhost:5000/search''))
   \<and> fst (world_after (process_file (recording example_runtime)
        (example_test (str_of ''http://localhost:5000/search'')) ([], 0)
        (str_of ''records.jsonl'') 1000))
       = [(str_of ''http://localhost:5000/search'',
           Inl (str_of ''{"NAME_FULL": "John Smith"}''), 10),
          (str_of ''http://localhost:5000/search'',
           Inl (str_of ''{"NAME_FULL": "Jane Doe"}''), 10)]
   \<and> filter is_invalid_json (run_output (process_file (recording example_runtime)
        (example_test (str_of ''http://localhost:5000/search'')) ([], 0)
        (str_of ''records.jsonl'') 1000))
       = [InvalidJson 3 (str_of ''Expecting value: line 1 column 1 (char 0)'')]\<close>
proof -
  have o1: "open_file example_runtime (str_of ''nothing.jsonl'') = Inl file_not_found"
    by (simp add: example_runtime_def str_of_def)
  have i1: "isinstance file_not_found FileNotFoundError"
    by (simp add: isinstance_def file_not_found_def)
  have o2: "open_file example_runtime (str_of ''records.jsonl'') = Inr (example_file, None)"
    by (simp add: example_runtime_def)
  have t: "0 < max_workers (example_test target)" "url (example_test target) = target"
    "timeout (example_test target) = 10" for target
    by (simp_all add: example_test_def)
  note missing = process_file_input_handling
      [of example_runtime "str_of ''nothing.jsonl''"
          "example_test (str_of ''http://localhost:5000/search'')" "[]" 0 1000]
  note present = process_file_input_handling
      [of example_runtime "str_of ''records.jsonl''"
          "example_test (str_of ''http://localhost:5000/search'')" "[]" 0 1000]
  from missing o1 i1
  have m: "returns (process_file (recording example_runtime)
        (example_test (str_of ''http://localhost:5000/search'')) ([], 0)
        (str_of ''nothing.jsonl'') 1000) = Inr False"
    "fst (world_after (process_file (recording example_runtime)
        (example_test (str_of ''http://localhost:5000/search'')) ([], 0)
        (str_of ''nothing.jsonl'') 1000)) = []"
    by simp_all
  from present o2 t(1) example_file_failures
  have p: "fst (world_after (process_file (recording example_runtime)
        (example_test (str_of ''http://localhost:5000/search'')) ([], 0)
        (str_of ''records.jsonl'') 1000))
      = List.map_filter
          (request_for example_runtime (example_test (str_of ''http://localhost:5000/search'')))
          (List.map_filter (well_formed (parse_line example_runtime)) example_file)"
    "filter is_invalid_json (run_output (process_file (recording example_runtime)
        (example_test (str_of ''http://localhost:5000/search'')) ([], 0)
        (str_of ''records.jsonl'') 1000))
      = List.map_filter (rejected (parse_line example_runtime)) (enumerate 1 example_file)"
    by simp_all
  have posts: \<open>List.map_filter
          (request_for example_runtime (example_test (str_of ''http://localhost:5000/search'')))
          (List.map_filter (well_formed (parse_line example_runtime)) example_file)
      = [(str_of ''http://localhost:5000/search'',
           Inl (str_of ''{"NAME_FULL": "John Smith"}''), 10),
          (str_of ''http://localhost:5000/search'',
           Inl (str_of ''{"NAME_FULL": "Jane Doe"}''), 10)]\<close>
    by (simp add: example_file_well_formed example_serialised request_for_def t
        map_filter_simps)
  from o1 i1 m o2 t(1) p show ?thesis
    by (simp only: posts example_file_rejected simp_thms)
qed

text \<open>
  Two runs in which a well-formed line leads to no request. The first line of
  \<^verbatim>\<open>nested.jsonl\<close> is not blank and does not parse, the parser raising \<^verbatim>\<open>RecursionError\<close>;
  its second line is well-formed. The run ends at the first line, with an unexpected error
  and \<^verbatim>\<open>False\<close>, and posts nothing. With \<^verbatim>\<open>max_workers\<close> zero, the run on
  \<^verbatim>\<open>records.jsonl\<close>, which has two well-formed lines, ends before a line is read, and posts
  nothing.
\<close>

theorem process_file_run_ends_early:
  \<open>open_file example_runtime (str_of ''nested.jsonl'') = Inr (nested_file, None)
   \<and> List.map_filter (well_formed (parse_line example_runtime)) (tl nested_file)
       = [Dict (str_of ''{"NAME_FULL": "Jane Doe"}'')]
   \<and> returns (process_file (recording example_runtime)
        (example_test (str_of ''http://localhost:5000/search'')) ([], 0)
        (str_of ''nested.jsonl'') 1000) = Inr False
   \<and> fst (world_after (process_file (recording example_runtime)
        (example_test (str_of ''http://localhost:5000/search'')) ([], 0)
        (str_of ''nested.jsonl'') 1000)) = []
   \<and> run_output (process_file (recording example_runtime)
        (example_test (str_of ''http://localhost:5000/search'')) ([], 0)
        (str_of ''nested.jsonl'') 1000)
       = [Started 2 (str_of ''http://localhost:5000/search'') 10 1000,
          UnexpectedError (str_of ''maximum recursion depth exceeded while decoding ''
                           @ str_of ''a JSON array from a unicode string'')]
   \<and> open_file example_runtime (str_of ''records.jsonl'') = Inr (example_file, None)
   \<and> List.map_filter (well_formed (parse_line example_runtime)) example_file
       = [Dict (str_of ''{"NAME_FULL": "John Smith"}''), Dict (str_of ''{"NAME_FULL": "Jane Doe"}'')]
   \<and> returns (process_file (recording example_runtime)
        ((example_test (str_of ''http://localhost:5000/search''))\<lparr>max_workers := 0\<rparr>) ([], 0)
        (str_of ''records.jsonl'') 1000) = Inr False
   \<and> fst (world_after (process_file (recording example_runtime)
        ((example_test (str_of ''http://localhost:5000/search''))\<lparr>max_workers := 0\<rparr>) ([], 0)
        (str_of ''records.jsonl'') 1000)) = []
   \<and> run_output (process_file (recording example_runtime)
        ((example_test (str_of ''http://localhost:5000/search''))\<lparr>max_workers := 0\<rparr>) ([], 0)
        (str_of ''records.jsonl'') 1000)
       = [Started 0 (str_of ''http://localhost:5000/search'') 10 1000,
          UnexpectedError (str_of ''max_workers must be greater than 0'')]\<close>
proof -
  have o1: "open_file example_runtime (str_of ''nested.jsonl'')
      = Inr ((deep_line @ [10]) # tl nested_file, None)"
    by (simp add: example_runtime_def nested_file_def str_of_def)
  have o1': "open_file example_runtime (str_of ''nested.jsonl'') = Inr (nested_file, None)"
    by (simp add: example_runtime_def str_of_def)
  have o2: "open_file example_runtime (str_of ''records.jsonl'') = Inr (example_file, None)"
    by (simp add: example_runtime_def)
  have second: \<open>List.map_filter (well_formed (parse_line example_runtime)) (tl nested_file)
       = [Dict (str_of ''{"NAME_FULL": "Jane Doe"}'')]\<close>
    by (simp add: nested_file_def map_filter_simps well_formed_def example_lines_stripped
        example_lines_parsed example_lines_not_blank)
  have e: "\<not> isinstance recursion_error JSONDecodeError"
    "\<not> isinstance recursion_error FileNotFoundError" "isinstance recursion_error Exception"
    "message recursion_error = str_of ''maximum recursion depth exceeded while decoding ''
                           @ str_of ''a JSON array from a unicode string''"
    by (simp_all add: isinstance_def recursion_error_def)
  have t: "0 < max_workers (example_test target)" "url (example_test target) = target"
    "timeout (example_test target) = 10" "max_workers (example_test target) = 2" for target
    by (simp_all add: example_test_def)
  have nested:
    "returns (process_file (recording example_runtime)
        (example_test (str_of ''http://localhost:5000/search'')) ([], 0)
        (str_of ''nested.jsonl'') 1000) = Inr False
     \<and> fst (world_after (process_file (recording example_runtime)
        (example_test (str_of ''http://localhost:5000/search'')) ([], 0)
        (str_of ''nested.jsonl'') 1000)) = []
     \<and> run_output (process_file (recording example_runtime)
        (example_test (str_of ''http://localhost:5000/search'')) ([], 0)
        (str_of ''nested.jsonl'') 1000)
       = [Started 2 (str_of ''http://localhost:5000/search'') 10 1000,
          UnexpectedError (str_of ''maximum recursion depth exceeded while decoding ''
                           @ str_of ''a JSON array from a unicode string'')]"
    using o1 process_file_first_line_raises
        [where rt = example_runtime and path = "str_of ''nested.jsonl''"
           and raw = "deep_line @ [10]" and rows = "tl nested_file" and read_error = None
           and self = "example_test (str_of ''http://localhost:5000/search'')"
           and e = recursion_error and sent = "[]" and w = 0 and interval = 1000]
    by (simp add: deep_line_stripped deep_line_shape deep_line_parse e t)
  have idle:
    "returns (process_file (recording example_runtime)
        ((example_test (str_of ''http://localhost:5000/search''))\<lparr>max_workers := 0\<rparr>) ([], 0)
        (str_of ''records.jsonl'') 1000) = Inr False
     \<and> fst (world_after (process_file (recording example_runtime)
        ((example_test (str_of ''http://localhost:5000/search''))\<lparr>max_workers := 0\<rparr>) ([], 0)
        (str_of ''records.jsonl'') 1000)) = []
     \<and> run_output (process_file (recording example_runtime)
        ((example_test (str_of ''http://localhost:5000/search''))\<lparr>max_workers := 0\<rparr>) ([], 0)
        (str_of ''records.jsonl'') 1000)
       = [Started 0 (str_of ''http://localhost:5000/search'') 10 1000,
          UnexpectedError (str_of ''max_workers must be greater than 0'')]"
    using o2 process_file_no_workers
        [where rt = example_runtime and path = "str_of ''records.jsonl''"
           and rows = example_file and read_error = None
           and self = "(example_test (str_of ''http://localhost:5000/search''))
                         \<lparr>max_workers := 0\<rparr>"
           and sent = "[]" and w = 0 and interval = 1000]
    by (simp add: t)
  from o1' second nested o2 example_file_well_formed idle show ?thesis
    by (simp only: simp_thms)
qed

section \<open>The percentile indexes in double arithmetic\<close>

lemma bit_length_0: "bit_length 0 = 0"
  by (subst bit_length.simps) simp

lemma bit_length_1: "bit_length (Suc 0) = Suc 0"
  by (subst bit_length.simps) (simp add: bit_length_0)

lemma bit_length_bounds:
  "0 < n \<Longrightarrow> 2 ^ (bit_length n - 1) \<le> n \<and> n < 2 ^ bit_length n"
proof (induction n rule: bit_length.induct)
  case (1 n)
  show ?case
  proof (cases "n div 2 = 0")
    case True
    with "1.prems" have "n = 1" by (simp add: div_eq_0_iff)
    then show ?thesis by (simp add: bit_length_1)
  next
    case False
    then have pos: "0 < n div 2" by simp
    from "1.IH" "1.prems" pos
    have ih: "2 ^ (bit_length (n div 2) - 1) \<le> n div 2" "n div 2 < 2 ^ bit_length (n div 2)"
      by simp_all
    have bl: "bit_length n = Suc (bit_length (n div 2))"
      using "1.prems" by (subst bit_length.simps) simp
    have pos2: "0 < bit_length (n div 2)"
      using pos by (subst bit_length.simps) simp
    then have "(2::nat) ^ bit_length (n div 2) = 2 * 2 ^ (bit_length (n div 2) - 1)"
      by (cases "bit_length (n div 2)") simp_all
    with ih bl show ?thesis by simp linarith
  qed
qed

lemma round_to_double_exact: "bit_length x \<le> 53 \<Longrightarrow> round_to_double x = x"
  by (simp add: round_to_double_def)

text \<open>Rounding to 53 bits raises a number by at most the fraction \<open>2^-53\<close> of itself.\<close>

lemma round_to_double_upper: "2 ^ 53 * round_to_double x \<le> (2 ^ 53 + 1) * x"
proof (cases "bit_length x \<le> 53")
  case True
  then show ?thesis by (simp add: round_to_double_exact)
next
  case False
  define s where "s = bit_length x - 53"
  define q where "q = x div 2 ^ s"
  define r where "r = x mod 2 ^ s"
  from False have s: "bit_length x = s + 53" "0 < s" by (simp_all add: s_def)
  then have "0 < x" by (cases "x = 0") (simp_all add: bit_length_0)
  from bit_length_bounds [OF this] s have low: "2 ^ (s + 52) \<le> x" by (simp add: add.commute)
  have x: "x = q * 2 ^ s + r" unfolding q_def r_def by (rule div_mult_mod_eq [symmetric])
  have half: "(2::nat) ^ s = 2 * 2 ^ (s - 1)"
    using s(2) by (cases s) simp_all
  have "round_to_double x \<le> x + 2 ^ (s - 1)"
  proof (cases "2 * r < 2 ^ s \<or> (2 * r = 2 ^ s \<and> even q)")
    case True
    then have "round_to_double x = q * 2 ^ s"
      by (simp add: round_to_double_def s_def [symmetric] q_def [symmetric] r_def [symmetric] Let_def)
    with x show ?thesis by simp
  next
    case False
    then have "round_to_double x = (q + 1) * 2 ^ s"
      by (simp add: round_to_double_def s_def [symmetric] q_def [symmetric] r_def [symmetric] Let_def)
    moreover from False have "2 ^ s \<le> 2 * r" by auto
    ultimately show ?thesis using x half by simp
  qed
  then have "2 ^ 53 * round_to_double x \<le> 2 ^ 53 * (x + 2 ^ (s - 1))"
    by simp
  also have "\<dots> = 2 ^ 53 * x + 2 ^ (s + 52)"
    using s(2) by (cases s) (simp_all add: algebra_simps power_add)
  also have "\<dots> \<le> 2 ^ 53 * x + x"
    using low by simp
  finally show ?thesis by (simp add: algebra_simps)
qed

text \<open>
  Hence \<^verbatim>\<open>int(n * c)\<close> is below \<open>n\<close> for a double \<open>c = m / 2^53\<close> that is below 1 by more
  than the two roundings can add.
\<close>

lemma int_of_product_less:
  assumes "1 \<le> n" and m: "m * ((2 ^ 53 + 1) * (2 ^ 53 + 1)) < 2 ^ 159"
  shows "int_of_product n m < int n"
proof -
  define a where "a = round_to_double n"
  define b where "b = round_to_double (a * m)"
  have a: "2 ^ 53 * a \<le> (2 ^ 53 + 1) * n"
    unfolding a_def by (rule round_to_double_upper)
  have b: "2 ^ 53 * b \<le> (2 ^ 53 + 1) * (a * m)"
    unfolding b_def by (rule round_to_double_upper)
  have "2 ^ 53 * (2 ^ 53 * b) \<le> 2 ^ 53 * ((2 ^ 53 + 1) * (a * m))"
    using b by (rule mult_le_mono2)
  also have "\<dots> = ((2 ^ 53 + 1) * m) * (2 ^ 53 * a)"
    by (simp add: algebra_simps)
  also have "\<dots> \<le> ((2 ^ 53 + 1) * m) * ((2 ^ 53 + 1) * n)"
    using a by (rule mult_le_mono2)
  also have "\<dots> = (m * ((2 ^ 53 + 1) * (2 ^ 53 + 1))) * n"
    by (simp add: algebra_simps)
  also have "\<dots> < 2 ^ 159 * n"
    using m assms(1) by simp
  finally have "2 ^ 106 * b < 2 ^ 106 * (2 ^ 53 * n)"
    by (simp add: algebra_simps)
  then have "b < 2 ^ 53 * n"
    by simp
  then have "b div 2 ^ 53 < n"
    by (simp add: less_mult_imp_div_less mult.commute)
  then show ?thesis
    by (simp add: int_of_product_def a_def b_def)
qed

lemma p_bounds:
  assumes "1 \<le> n"
  shows "int_of_product n double_0_50 < int n" "int_of_product n double_0_90 < int n"
    "int_of_product n double_0_95 < int n" "int_of_product n double_0_99 < int n"
  using assms by (simp_all add: int_of_product_less double_0_50_def double_0_90_def double_0_95_def double_0_99_def)


lemma bit_length_le: "n < 2 ^ j \<Longrightarrow> bit_length n \<le> j"
proof (cases "n = 0")
  case True
  then show ?thesis by (simp add: bit_length_0)
next
  case False
  assume less: "n < 2 ^ j"
  from False bit_length_bounds [of n] have "2 ^ (bit_length n - 1) \<le> n"
    by simp
  from this less have "(2::nat) ^ (bit_length n - 1) < 2 ^ j"
    by (rule le_less_trans)
  then have "bit_length n - 1 < j"
    by (rule power_less_imp_less_exp [rotated]) simp
  then show ?thesis by simp
qed

lemma bit_length_gt: "2 ^ j \<le> n \<Longrightarrow> j < bit_length n"
proof -
  assume a: "2 ^ j \<le> n"
  then have "0 < n" by (cases "n = 0") simp_all
  with bit_length_bounds [of n] have "n < 2 ^ bit_length n"
    by simp
  with a have "(2::nat) ^ j < 2 ^ bit_length n"
    by (rule le_less_trans)
  then show ?thesis
    by (rule power_less_imp_less_exp [rotated]) simp
qed

text \<open>
  The rounded value lies between the multiple of the unit in the last place below the number
  and half a unit above the number; within half a unit below a multiple it is that multiple.
\<close>

lemma round_to_double_floor:
  "(x div 2 ^ (bit_length x - 53)) * 2 ^ (bit_length x - 53) \<le> round_to_double x"
  by (simp add: round_to_double_def Let_def)

lemma round_to_double_half:
  "2 * round_to_double x \<le> 2 * x + 2 ^ (bit_length x - 53)"
proof -
  define s where "s = bit_length x - 53"
  define S where "S = (2::nat) ^ s"
  define Q where "Q = x div S * S"
  define r where "r = x mod S"
  have x: "x = Q + r" unfolding Q_def r_def by (rule div_mult_mod_eq [symmetric])
  have "round_to_double x = Q \<or> (round_to_double x = Q + S \<and> S \<le> 2 * r)"
    by (auto simp add: round_to_double_def s_def [symmetric] S_def [symmetric] Q_def r_def Let_def)
  with x have "2 * round_to_double x \<le> 2 * x + S"
    by linarith
  then show ?thesis by (simp add: S_def s_def)
qed

lemma round_to_double_up:
  assumes sum: "x + delta = t * 2 ^ s" and s: "s = bit_length x - 53"
    and pos: "0 < delta" and small: "2 * delta < 2 ^ s"
  shows "round_to_double x = t * 2 ^ s"
proof -
  from sum pos have "0 < t" by (cases t) simp_all
  then obtain u where t: "t = Suc u" by (cases t) simp_all
  define r where "r = 2 ^ s - delta"
  from small have r: "r < 2 ^ s" "delta + r = 2 ^ s" "2 ^ s < 2 * r"
    using pos by (simp_all add: r_def)
  from sum t r(2) have x: "x = u * 2 ^ s + r"
    by (simp add: algebra_simps)
  have q: "x div 2 ^ s = u" using r(1) by (simp add: x)
  have m: "x mod 2 ^ s = r" using r(1) by (simp add: x)
  from r(3) have "\<not> (2 * r < 2 ^ s \<or> (2 * r = 2 ^ s \<and> even u))" by simp
  then show ?thesis
    by (simp add: round_to_double_def s [symmetric] q m Let_def t)
qed


lemma round_to_double_0: "round_to_double 0 = 0"
  by (simp add: round_to_double_exact bit_length_0)

text \<open>Facts shared by the two cases of the index computation.\<close>

lemma product_shape:
  fixes n m :: nat
  assumes n: "0 < n" "n < 2 ^ 45" and m: "2 ^ 52 \<le> m" "m < 2 ^ 53"
  defines "s \<equiv> bit_length (n * m) - 53"
  shows "round_to_double n = n"
    and "bit_length (n * m) = s + 53"
    and "s \<le> 53"
    and "2 ^ s * 2 ^ 52 \<le> n * m"
    and "n * m < 2 ^ s * 2 ^ 53"
    and "2 ^ s \<le> 2 * n"
proof -
  from n(2) have "n < 2 ^ 53"
    by simp
  then show "round_to_double n = n"
    by (simp add: round_to_double_exact bit_length_le)
  have low: "2 ^ 52 \<le> n * m"
    using n(1) m(1) by (metis mult.commute mult_le_mono2 mult.right_neutral One_nat_def Suc_leI le_trans)
  then have pos: "0 < n * m"
    by (cases "n * m = 0") simp_all
  from bit_length_gt [OF low] show bl: "bit_length (n * m) = s + 53"
    by (simp add: s_def)
  have "n * m < 2 ^ 45 * 2 ^ 53"
    using n(2) m(2) by (rule mult_strict_mono) simp_all
  then have "n * m < 2 ^ 98"
    by simp
  then have "bit_length (n * m) \<le> 98"
    by (rule bit_length_le)
  with bl show "s \<le> 53"
    by simp
  from bit_length_bounds [OF pos] bl
  show b1: "2 ^ s * 2 ^ 52 \<le> n * m" and "n * m < 2 ^ s * 2 ^ 53"
    by (simp_all add: power_add)
  define NM where "NM = n * m"
  have "NM \<le> n * 2 ^ 53"
    using m(2) by (simp add: NM_def)
  moreover from b1 have "2 ^ s * 2 ^ 52 \<le> NM"
    by (simp add: NM_def)
  ultimately show "2 ^ s \<le> 2 * n"
    by simp
qed


lemma floor_from_bounds:
  fixes K B R :: nat
  assumes "K * B \<le> R" "R < K * B + B"
  shows "R div B = K"
  using assms by (intro div_nat_eqI) (simp_all add: algebra_simps)

lemma multiple_le_floor:
  fixes S x y :: nat
  assumes "S dvd y" "y \<le> x" "0 < S"
  shows "y \<le> x div S * S"
proof -
  from assms(1) obtain c where y: "y = c * S"
    by (auto simp: dvd_def mult.commute)
  with assms(2,3) have "c \<le> x div S"
    by (simp add: less_eq_div_iff_mult_less_eq)
  then show ?thesis
    by (simp add: y)
qed

lemma power_dvd_scaled:
  fixes K :: nat
  assumes "s \<le> 53"
  shows "2 ^ s dvd K * 2 ^ 53" and "K * 2 ^ 53 = (K * 2 ^ (53 - s)) * 2 ^ s"
proof -
  from assms have "(2::nat) ^ 53 = 2 ^ (53 - s) * 2 ^ s"
    by (simp add: power_add [symmetric])
  then show "K * 2 ^ 53 = (K * 2 ^ (53 - s)) * 2 ^ s"
    by (simp only: mult.assoc)
  then show "2 ^ s dvd K * 2 ^ 53"
    by (simp only: dvd_triv_right)
qed

text \<open>
  \<^verbatim>\<open>int(n * c)\<close> is \<open>floor (n * k / 100)\<close> when the double \<open>c = m / 2^53\<close> is \<open>k / 100\<close> or
  slightly above it: the exact product is not below the integer \<open>K\<close> it has to reach and
  stays more than half a unit below \<open>K + 1\<close>.
\<close>

lemma int_of_product_above:
  fixes n m k d :: nat
  assumes n: "n < 2 ^ 45" and m: "2 ^ 52 \<le> m" "m < 2 ^ 53"
    and d: "100 * m = k * 2 ^ 53 + d" "d \<le> 100"
  shows "int_of_product n m = int (n * k div 100)"
proof (cases "n = 0")
  case True
  then show ?thesis by (simp add: int_of_product_def round_to_double_0)
next
  case False
  then have pos: "0 < n" by simp
  define B :: nat where "B = 2 ^ 53"
  define P where "P = n * m"
  define K where "K = n * k div 100"
  define rho where "rho = n * k mod 100"
  define s where "s = bit_length P - 53"
  define S :: nat where "S = 2 ^ s"
  define R where "R = round_to_double P"
  note shape = product_shape [OF pos n m]
  have nk: "n * k = 100 * K + rho" and rho: "rho < 100"
    by (simp_all add: K_def rho_def)
  have "100 * P = n * (100 * m)" by (simp add: P_def)
  also have "\<dots> = n * (k * B + d)" by (simp only: d(1) B_def)
  also have "\<dots> = (n * k) * B + n * d" by (simp add: algebra_simps)
  also have "\<dots> = 100 * (K * B) + rho * B + n * d" unfolding nk by (simp add: algebra_simps)
  finally have P100: "100 * P = 100 * (K * B) + rho * B + n * d" .
  have rhoB: "rho * B \<le> 99 * B" using rho by simp
  have nd: "n * d \<le> 100 * n" using d(2) by simp
  have nB: "200 * n < B" using n by (simp add: B_def)
  have s53: "s \<le> 53" using shape(3) by (simp add: s_def P_def)
  have SB: "S dvd K * B" unfolding S_def B_def using s53 by (rule power_dvd_scaled)
  have floor: "P div S * S \<le> R" unfolding R_def S_def s_def by (rule round_to_double_floor)
  have half: "2 * R \<le> 2 * P + S" unfolding R_def S_def s_def by (rule round_to_double_half)
  have Sn: "S \<le> 2 * n" using shape(6) by (simp add: S_def s_def P_def)
  have "K * B \<le> P" using P100 by linarith
  with SB have "K * B \<le> P div S * S" by (rule multiple_le_floor) (simp add: S_def)
  with floor have lower: "K * B \<le> R" by simp
  have upper: "R < K * B + B" using half P100 rhoB nd nB Sn by linarith
  from lower upper have "R div B = K" by (rule floor_from_bounds)
  then show ?thesis
    by (simp add: int_of_product_def shape(1) R_def P_def B_def K_def)
qed

text \<open>
  When the double is slightly below \<open>k / 100\<close> and \<open>n * k\<close> is a multiple of 100, the exact
  product is just below the integer \<open>K\<close>; it is within half a unit of \<open>K\<close> and is rounded up
  to it.
\<close>

lemma int_of_product_below:
  fixes n m k d :: nat
  assumes n: "n < 2 ^ 45" and m: "2 ^ 52 \<le> m" "m < 2 ^ 53"
    and d: "100 * m + d = k * 2 ^ 53" "0 < d" "d \<le> 100"
    and margin: "d * (2 * 2 ^ 53 + 1) \<le> k * 2 ^ 53"
  shows "int_of_product n m = int (n * k div 100)"
proof (cases "n = 0")
  case True
  then show ?thesis by (simp add: int_of_product_def round_to_double_0)
next
  case False
  then have pos: "0 < n" by simp
  define B :: nat where "B = 2 ^ 53"
  define P where "P = n * m"
  define K where "K = n * k div 100"
  define rho where "rho = n * k mod 100"
  define s where "s = bit_length P - 53"
  define S :: nat where "S = 2 ^ s"
  define R where "R = round_to_double P"
  note shape = product_shape [OF pos n m]
  have nk: "n * k = 100 * K + rho" and rho: "rho < 100"
    by (simp_all add: K_def rho_def)
  have "100 * P + n * d = n * (100 * m + d)" by (simp add: P_def algebra_simps)
  also have "\<dots> = n * (k * B)" by (simp only: d(1) B_def)
  also have "\<dots> = (n * k) * B" by simp
  also have "\<dots> = 100 * (K * B) + rho * B" unfolding nk by (simp add: algebra_simps)
  finally have P100: "100 * P + n * d = 100 * (K * B) + rho * B" .
  have rhoB: "rho * B \<le> 99 * B" using rho by simp
  have nd: "n * d \<le> 100 * n" using d(3) by simp
  have nd0: "0 < n * d" using pos d(2) by simp
  have nB: "200 * n < B" using n by (simp add: B_def)
  have s53: "s \<le> 53" using shape(3) by (simp add: s_def P_def)
  have SB: "S dvd K * B" unfolding S_def B_def using s53 by (rule power_dvd_scaled)
  have floor: "P div S * S \<le> R" unfolding R_def S_def s_def by (rule round_to_double_floor)
  have half: "2 * R \<le> 2 * P + S" unfolding R_def S_def s_def by (rule round_to_double_half)
  have Sn: "S \<le> 2 * n" using shape(6) by (simp add: S_def s_def P_def)
  have PS: "P < S * B" using shape(5) by (simp add: S_def s_def P_def B_def)
  have upper: "R < K * B + B" using half P100 rhoB nd nB Sn by linarith
  have lower: "K * B \<le> R"
  proof (cases "rho = 0")
    case False
    then have "B \<le> rho * B" by simp
    with P100 nd nB have "K * B \<le> P" by linarith
    with SB have "K * B \<le> P div S * S" by (rule multiple_le_floor) (simp add: S_def)
    with floor show ?thesis by simp
  next
    case True
    define delta where "delta = K * B - P"
    from True P100 have eq: "100 * P + n * d = 100 * (K * B)" by simp
    with nd0 have less: "P < K * B"
      by linarith
    then have sum: "P + delta = K * B" and delta: "0 < delta"
      by (simp_all add: delta_def)
    from eq less have d100: "100 * delta = n * d"
      unfolding delta_def by linarith
    have "n * (d * (2 * B + 1)) \<le> n * (k * B)"
      using margin unfolding B_def by (rule mult_le_mono2)
    then have "(n * d) * (2 * B) + n * d \<le> (n * k) * B"
      by (simp add: algebra_simps)
    with d100 [symmetric] nk True have "(100 * delta) * (2 * B) + n * d \<le> 100 * (K * B)"
      by (simp add: algebra_simps)
    with eq have "100 * (2 * delta * B) \<le> 100 * P"
      by (simp add: algebra_simps)
    then have "2 * delta * B \<le> P" by (simp add: mult.commute mult.left_commute)
    from this PS have "2 * delta * B < S * B" by (rule le_less_trans)
    then have small: "2 * delta < 2 ^ s" by (simp add: S_def)
    have "P + delta = (K * 2 ^ (53 - s)) * 2 ^ s"
      using sum power_dvd_scaled(2) [OF s53, of K] by (simp add: B_def)
    from round_to_double_up [OF this s_def delta small]
    have "R = K * B"
      using power_dvd_scaled(2) [OF s53, of K] by (simp add: R_def B_def)
    then show ?thesis by simp
  qed
  from lower upper have "R div B = K" by (rule floor_from_bounds)
  then show ?thesis
    by (simp add: int_of_product_def shape(1) R_def P_def B_def K_def)
qed

text \<open>
  The four indexes of the report: the doubles for 0.50 and 0.90 are exact or above (by 0 and
  by 20 in units of \<open>2^-53 / 100\<close>), those for 0.95 and 0.99 below (by 40 and by 8).
\<close>

lemma percentile_index_values:
  assumes "n < 2 ^ 45"
  shows "int_of_product n double_0_50 = int (n * 50 div 100)"
    and "int_of_product n double_0_90 = int (n * 90 div 100)"
    and "int_of_product n double_0_95 = int (n * 95 div 100)"
    and "int_of_product n double_0_99 = int (n * 99 div 100)"
proof -
  show "int_of_product n double_0_50 = int (n * 50 div 100)"
    unfolding double_0_50_def by (rule int_of_product_above [OF assms, where d = 0]) simp_all
  show "int_of_product n double_0_90 = int (n * 90 div 100)"
    unfolding double_0_90_def by (rule int_of_product_above [OF assms, where d = 20]) simp_all
  show "int_of_product n double_0_95 = int (n * 95 div 100)"
    unfolding double_0_95_def by (rule int_of_product_below [OF assms, where d = 40]) simp_all
  show "int_of_product n double_0_99 = int (n * 99 div 100)"
    unfolding double_0_99_def by (rule int_of_product_below [OF assms, where d = 8]) simp_all
qed

section \<open>Properties of the final report\<close>

lemma py_index_in_range:
  "0 \<le> i \<Longrightarrow> i < int (length xs) \<Longrightarrow> py_index xs i = Inr (xs ! nat i)"
  by (simp add: py_index_def)

lemma timing_statistics_value:
  fixes samples :: "('t::linorder) list"
  assumes "samples \<noteq> []"
  shows "timing_statistics rt samples =
     Inr (Some \<lparr>average = mean rt samples,
                minimum = Min (set samples),
                maximum = Max (set samples),
                deviation = (if 2 \<le> length samples then Some (stdev rt samples) else None),
                p50 = sort samples ! nat (int_of_product (length samples) double_0_50),
                p90 = sort samples ! nat (int_of_product (length samples) double_0_90),
                p95 = sort samples ! nat (int_of_product (length samples) double_0_95),
                p99 = sort samples ! nat (int_of_product (length samples) double_0_99)\<rparr>)"
proof -
  from assms obtain first others where samples: "samples = first # others"
    by (cases samples) simp_all
  have n: "1 \<le> length samples"
    using assms by (cases samples) simp_all
  have nonneg: "0 \<le> int_of_product (length samples) m" for m
    by (simp add: int_of_product_def)
  note idx = p_bounds [OF n]
  have sel: "py_index (sort samples) (int_of_product (length samples) m)
               = Inr (sort samples ! nat (int_of_product (length samples) m))"
    if "int_of_product (length samples) m < int (length samples)" for m
    using that nonneg [of m] by (simp add: py_index_in_range)
  have mn: "fold min others first = Min (set samples)"
    unfolding samples by (rule Min.set_eq_fold [symmetric])
  have mx: "fold max others first = Max (set samples)"
    unfolding samples by (rule Max.set_eq_fold [symmetric])
  have dev: "(1 < length samples) = (2 \<le> length samples)"
    by auto
  show ?thesis
    using sel [OF idx(1)] sel [OF idx(2)] sel [OF idx(3)] sel [OF idx(4)] mn mx
    by (auto simp add: timing_statistics_def samples Let_def Suc_le_eq simp del: fold_simps)
qed

text \<open>
  C10. For a non-empty sample list of length \<open>n\<close>, each of the four indexes
  \<^verbatim>\<open>int(n * 0.50)\<close>, \<^verbatim>\<open>int(n * 0.90)\<close>, \<^verbatim>\<open>int(n * 0.95)\<close> and \<^verbatim>\<open>int(n * 0.99)\<close> lies
  between 0 and \<open>n - 1\<close>, so the selection on the sorted list raises no \<^verbatim>\<open>IndexError\<close> and
  the timing statistics are produced.
\<close>

theorem percentile_indexes_in_range:
  fixes samples :: "('t::linorder) list"
  assumes "samples \<noteq> []"
  shows "0 \<le> int_of_product (length samples) double_0_50
     \<and> int_of_product (length samples) double_0_50 \<le> int (length samples) - 1
     \<and> 0 \<le> int_of_product (length samples) double_0_90
     \<and> int_of_product (length samples) double_0_90 \<le> int (length samples) - 1
     \<and> 0 \<le> int_of_product (length samples) double_0_95
     \<and> int_of_product (length samples) double_0_95 \<le> int (length samples) - 1
     \<and> 0 \<le> int_of_product (length samples) double_0_99
     \<and> int_of_product (length samples) double_0_99 \<le> int (length samples) - 1
     \<and> (\<exists>stats. timing_statistics rt samples = Inr (Some stats))"
proof -
  from assms have n: "1 \<le> length samples"
    by (cases samples) simp_all
  have nonneg: "0 \<le> int_of_product (length samples) m" for m
    by (simp add: int_of_product_def)
  from p_bounds [OF n] nonneg timing_statistics_value [OF assms, of rt] show ?thesis
    by simp
qed

theorem percentile_indexes_in_range_witness:
  "[0.4, 0.1, 0.3, 0.2::real] \<noteq> []
   \<and> int_of_product 4 double_0_50 = 2 \<and> int_of_product 4 double_0_90 = 3
   \<and> int_of_product 4 double_0_95 = 3 \<and> int_of_product 4 double_0_99 = 3
   \<and> int_of_product (length [0.4, 0.1, 0.3, 0.2::real]) double_0_99
       \<le> int (length [0.4, 0.1, 0.3, 0.2::real]) - 1"
  using percentile_indexes_in_range [of "[0.4, 0.1, 0.3, 0.2::real]" example_runtime]
    percentile_index_values [of 4]
  by simp

lemma print_final_report_value:
  fixes self :: "('t::{linorder,minus,zero}) performance_test"
  assumes "request_times self \<noteq> []"
    and "length (request_times self) < 2 ^ 45"
    and "start_time self = Some started"
    and "end_time - started \<noteq> 0"
  shows "print_final_report rt self end_time processed =
     Inr \<lparr>rep_processed = processed,
          rep_total = total_requests self,
          rep_successful = length (request_times self),
          rep_failed = error_count self,
          rep_timing = Some
            \<lparr>average = mean rt (request_times self),
             minimum = Min (set (request_times self)),
             maximum = Max (set (request_times self)),
             deviation = (if 2 \<le> length (request_times self)
                          then Some (stdev rt (request_times self)) else None),
             p50 = sort (request_times self) ! (length (request_times self) * 50 div 100),
             p90 = sort (request_times self) ! (length (request_times self) * 90 div 100),
             p95 = sort (request_times self) ! (length (request_times self) * 95 div 100),
             p99 = sort (request_times self) ! (length (request_times self) * 99 div 100)\<rparr>\<rparr>"
  using assms(3,4)
  by (simp add: print_final_report_def Let_def timing_statistics_value [OF assms(1)]
      percentile_index_values [OF assms(2)])

text \<open>
  C7, as the code has it. When there is at least one success sample (and fewer than
  \<open>2^45\<close>, so that the double product is exact enough) and the run took a time other than
  zero, by which the report divides first, the final report holds the mean,
  the minimum and the maximum of the samples, the standard deviation when there are at least
  two samples and none otherwise, and as 50th, 90th, 95th and 99th percentile the element of
  the sorted samples at index \<open>floor (n * p)\<close>.
\<close>

theorem final_report_timing_statistics:
  fixes self :: "('t::{linorder,minus,zero}) performance_test"
  assumes "request_times self \<noteq> []"
    and "length (request_times self) < 2 ^ 45"
    and "start_time self = Some started"
    and "end_time - started \<noteq> 0"
  shows "print_final_report rt self end_time processed =
     Inr \<lparr>rep_processed = processed,
          rep_total = total_requests self,
          rep_successful = length (request_times self),
          rep_failed = error_count self,
          rep_timing = Some
            \<lparr>average = mean rt (request_times self),
             minimum = Min (set (request_times self)),
             maximum = Max (set (request_times self)),
             deviation = (if 2 \<le> length (request_times self)
                          then Some (stdev rt (request_times self)) else None),
             p50 = sort (request_times self) ! (length (request_times self) * 50 div 100),
             p90 = sort (request_times self) ! (length (request_times self) * 90 div 100),
             p95 = sort (request_times self) ! (length (request_times self) * 95 div 100),
             p99 = sort (request_times self) ! (length (request_times self) * 99 div 100)\<rparr>\<rparr>"
  using assms by (rule print_final_report_value)

theorem final_report_timing_statistics_witness:
  "request_times four_successes = [0.4, 0.1, 0.3, 0.2]
   \<and> length (request_times four_successes) < 2 ^ 45
   \<and> start_time four_successes = Some 0
   \<and> (100::real) - 0 \<noteq> 0
   \<and> sort (request_times four_successes) = [0.1, 0.2, 0.3, 0.4]
   \<and> length (request_times four_successes) * 50 div 100 = 2
   \<and> print_final_report example_runtime four_successes 100 5 =
     Inr \<lparr>rep_processed = 5, rep_total = 5, rep_successful = 4, rep_failed = 1,
          rep_timing = Some
            \<lparr>average = 0.25, minimum = 0.1, maximum = 0.4,
             deviation = Some (stdev example_runtime [0.4, 0.1, 0.3, 0.2]),
             p50 = 0.3, p90 = 0.4, p95 = 0.4, p99 = 0.4\<rparr>\<rparr>"
proof -
  have ts: "request_times four_successes = [0.4, 0.1, 0.3, 0.2]"
    and st: "start_time four_successes = Some 0"
    and counts: "total_requests four_successes = 5" "error_count four_successes = 1"
    by (simp_all add: four_successes_def)
  have nonempty: "request_times four_successes \<noteq> []"
    and small: "length (request_times four_successes) < 2 ^ 45"
    by (simp_all add: ts)
  have dur: "(100::real) - 0 \<noteq> 0"
    by simp
  have sorted: "sort [0.4, 0.1, 0.3, 0.2::real] = [0.1, 0.2, 0.3, 0.4]"
    by simp
  have avg: "mean example_runtime [0.4, 0.1, 0.3, 0.2] = 0.25"
    by (simp add: example_runtime_def)
  from final_report_timing_statistics [OF nonempty small st dur, of example_runtime 5]
  have "print_final_report example_runtime four_successes 100 5 =
     Inr \<lparr>rep_processed = 5, rep_total = 5, rep_successful = 4, rep_failed = 1,
          rep_timing = Some
            \<lparr>average = 0.25, minimum = 0.1, maximum = 0.4,
             deviation = Some (stdev example_runtime [0.4, 0.1, 0.3, 0.2]),
             p50 = 0.3, p90 = 0.4, p95 = 0.4, p99 = 0.4\<rparr>\<rparr>"
    using avg by (simp add: ts counts sorted)
  with ts small st dur sorted show ?thesis
    by simp
qed

text \<open>
  The claim as the specification words it fails for a single success: the report then holds
  no standard deviation.
\<close>

theorem final_report_single_sample:
  "print_final_report example_runtime one_success 100 1 =
     Inr \<lparr>rep_processed = 1, rep_total = 1, rep_successful = 1, rep_failed = 0,
          rep_timing = Some
            \<lparr>average = 0.25, minimum = 0.25, maximum = 0.25, deviation = None,
             p50 = 0.25, p90 = 0.25, p95 = 0.25, p99 = 0.25\<rparr>\<rparr>"
proof -
  have ts: "request_times one_success = [0.25]"
    and st: "start_time one_success = Some 0"
    and counts: "total_requests one_success = 1" "error_count one_success = 0"
    by (simp_all add: one_success_def)
  have nonempty: "request_times one_success \<noteq> []"
    and small: "length (request_times one_success) < 2 ^ 45"
    by (simp_all add: ts)
  have dur: "(100::real) - 0 \<noteq> 0"
    by simp
  have avg: "mean example_runtime [0.25] = 0.25"
    by (simp add: example_runtime_def)
  from print_final_report_value [OF nonempty small st dur, of example_runtime 1] avg
  show ?thesis
    by (simp add: ts counts)
qed

end
